theory Spec2Isabelle
  imports Main "HOL-Library.AList"
begin

section \<open>JavaScript values\<close>

text \<open>
  The interactor handles values of TypeScript type \<open>any\<close>: the request envelope, the
  response payload, the slot map and the error data. They are modelled as a datatype of
  JSON-like values. Numbers are integers (no claim depends on floating point); \<open>JBigInt\<close>
  is the primitive type \<open>bigint\<close>. An object is the list of its own properties, in the
  order in which they were added; where a key is bound twice the first binding counts.
  Values are finite trees, and there are no function values: an object that refers to
  itself, and a property that holds a method, lie outside the datatype.
\<close>

datatype json =
    JUndefined
  | JNull
  | JBool bool
  | JNum int
  | JBigInt int
  | JStr string
  | JArr "json list"
  | JObj "(string \<times> json) list"

text \<open>What a \<open>throw\<close> carries: the engine's TypeError, or any value raised by a collaborator.\<close>

datatype fault = TypeError string | Raised json

fun nullish :: "json \<Rightarrow> bool" where
  "nullish JUndefined = True"
| "nullish JNull = True"
| "nullish _ = False"

text \<open>JavaScript truthiness, as used by \<open>&&\<close> and \<open>if\<close>.\<close>

fun truthy :: "json \<Rightarrow> bool" where
  "truthy JUndefined = False"
| "truthy JNull = False"
| "truthy (JBool b) = b"
| "truthy (JNum n) = (n \<noteq> 0)"
| "truthy (JBigInt n) = (n \<noteq> 0)"
| "truthy (JStr s) = (s \<noteq> [])"
| "truthy (JArr xs) = True"
| "truthy (JObj kvs) = True"

text \<open>
  \<open>propOf v k\<close> is the value of \<open>v.k\<close> for a \<open>v\<close> that is neither null nor undefined:
  the property of an object, \<open>undefined\<close> when the object lacks it and for the primitive
  values (none of the names read by the interactor is a built-in property of a primitive).
\<close>

fun propOf :: "json \<Rightarrow> string \<Rightarrow> json" where
  "propOf (JObj kvs) k = (case map_of kvs k of None \<Rightarrow> JUndefined | Some v \<Rightarrow> v)"
| "propOf _ k = JUndefined"

text \<open>Property access as the engine performs it: reading a property of null or undefined throws.\<close>

definition getProp :: "json \<Rightarrow> string \<Rightarrow> fault + json" where
  "getProp v k =
     (if nullish v then Inl (TypeError (''Cannot read property '' @ k))
      else Inr (propOf v k))"

text \<open>Assignment \<open>v.k = x\<close> on an object (used by request filters).\<close>

fun setProp :: "json \<Rightarrow> string \<Rightarrow> json \<Rightarrow> json" where
  "setProp (JObj kvs) k x = JObj (AList.update k x kvs)"
| "setProp v k x = v"

function decimal :: "nat \<Rightarrow> string" where
  "decimal n =
     (if n < 10 then [char_of (48 + n)]
      else decimal (n div 10) @ [char_of (48 + n mod 10)])"
  by pat_completeness auto
termination
  by (relation "measure id") auto

definition decimalInt :: "int \<Rightarrow> string" where
  "decimalInt i = (if i < 0 then CHR ''-'' # decimal (nat (- i)) else decimal (nat i))"

text \<open>
  Conversion to a string, as the operator \<open>+\<close> performs it on an operand next to a
  string. An array joins the strings of its elements with commas, null and undefined
  elements counting as empty. An object has no method of its own in this datatype: it
  converts to \<open>[object Object]\<close> through the inherited \<open>toString\<close>, unless a property
  of its own named \<open>toString\<close> hides that method, and then the conversion throws.
\<close>

fun joinStrings :: "(fault + string) list \<Rightarrow> fault + string" where
  "joinStrings [] = Inr []"
| "joinStrings [x] = x"
| "joinStrings (x # y # ys) =
     (case x of
        Inl e \<Rightarrow> Inl e
      | Inr a \<Rightarrow> (case joinStrings (y # ys) of Inl e \<Rightarrow> Inl e | Inr b \<Rightarrow> Inr (a @ '','' @ b)))"

fun jsToString :: "json \<Rightarrow> fault + string" where
  "jsToString JUndefined = Inr ''undefined''"
| "jsToString JNull = Inr ''null''"
| "jsToString (JBool b) = Inr (if b then ''true'' else ''false'')"
| "jsToString (JNum n) = Inr (decimalInt n)"
| "jsToString (JBigInt n) = Inr (decimalInt n)"
| "jsToString (JStr s) = Inr s"
| "jsToString (JArr xs) =
     joinStrings (map (\<lambda>x. if nullish x then Inr [] else jsToString x) xs)"
| "jsToString (JObj kvs) =
     (if ''toString'' \<in> set (map fst kvs)
      then Inl (TypeError ''Cannot convert object to primitive value'')
      else Inr ''[object Object]'')"

text \<open>
  Whether \<open>JSON.stringify\<close> accepts a value: it throws when it meets a \<open>bigint\<close>
  in the value, in an element of an array or in a property of an object. (It also throws
  on an object that refers to itself; such a value is outside the datatype.)
\<close>

fun serialisable :: "json \<Rightarrow> bool" where
  "serialisable (JBigInt n) = False"
| "serialisable (JArr xs) = list_all serialisable xs"
| "serialisable (JObj kvs) = list_all (\<lambda>kv. serialisable (snd kv)) kvs"
| "serialisable _ = True"

text \<open>
  \<open>ownEntries v\<close> lists, in the order of \<open>Object.keys(v)\<close>, each own key \<open>k\<close> of \<open>v\<close>
  with the value \<open>v[k]\<close>. For an object the keys that are array indices come first, in
  ascending numeric order, then the other keys in the order in which they were added.
  An array and a string list their indices; the other primitives have no keys.
\<close>

definition digitsValue :: "string \<Rightarrow> nat" where
  "digitsValue k = foldl (\<lambda>n c. 10 * n + (of_char c - 48)) 0 k"

definition isArrayIndex :: "string \<Rightarrow> bool" where
  "isArrayIndex k =
     (k \<noteq> [] \<and> list_all (\<lambda>c. c \<in> set ''0123456789'') k
      \<and> (k = ''0'' \<or> hd k \<noteq> CHR ''0'')
      \<and> digitsValue k < 4294967295)"

definition ownKeys :: "(string \<times> json) list \<Rightarrow> string list" where
  "ownKeys kvs =
     (let ks = rev (remdups (rev (map fst kvs)))
      in sort_key digitsValue (filter isArrayIndex ks) @ filter (\<lambda>k. \<not> isArrayIndex k) ks)"

fun ownEntries :: "json \<Rightarrow> (string \<times> json) list" where
  "ownEntries (JObj kvs) = map (\<lambda>k. (k, propOf (JObj kvs) k)) (ownKeys kvs)"
| "ownEntries (JArr xs) = zip (map decimal [0 ..< length xs]) xs"
| "ownEntries (JStr s) = zip (map decimal [0 ..< length s]) (map (\<lambda>c. JStr [c]) s)"
| "ownEntries _ = []"

section \<open>Collaborators of the interactor\<close>

text \<open>
  SkillInteractor.ts imports AudioPlayer, InteractionModel, SkillContext, SkillRequest,
  Utterance and the invoker. None of these classes is among the sources, so each is
  modelled from the specification, or taken as a parameter where the specification does
  not fix its behaviour.
\<close>

subsection \<open>Session\<close>

text \<open>
  Modelled from the spec: the class Session, which is not among the sources (spec 3:
  identifier, attribute mapping, is-new flag, is-active flag).
\<close>

record session =
  sessionId :: nat
  attributes :: json
  isNew :: bool
  isActive :: bool

text \<open>
  Modelled from the spec: \<open>Session.used()\<close>, not among the sources (spec 4.2:
  Created goes to Used on completing a round trip).
\<close>

definition used :: "session \<Rightarrow> session" where
  "used s = s\<lparr>isNew := False\<rparr>"

text \<open>
  Modelled from the spec: \<open>Session.updateAttributes\<close>, not among the sources (spec 4.2:
  the returned mapping replaces the session's; absent attributes clear it; a response that
  omits the field entirely leaves the prior mapping in place).
\<close>

fun updateAttributes :: "session \<Rightarrow> json \<Rightarrow> session" where
  "updateAttributes s JUndefined = s"
| "updateAttributes s JNull = s\<lparr>attributes := JObj []\<rparr>"
| "updateAttributes s a = s\<lparr>attributes := a\<rparr>"

subsection \<open>Audio player\<close>

text \<open>
  Modelled from the spec: the class AudioPlayer, not among the sources (spec 3 and 4.2:
  three states, the current item and offset defined only when not idle).
\<close>

datatype playback = IDLE | PLAYING | SUSPENDED

record audioPlayer =
  playback :: playback
  playing :: "(string \<times> nat) option"

text \<open>
  Modelled from the spec: \<open>AudioPlayer.isPlaying()\<close>, not among the sources (spec 4.2:
  true if and only if the state is PLAYING).
\<close>

definition isPlaying :: "audioPlayer \<Rightarrow> bool" where
  "isPlaying p = (playback p = PLAYING)"

text \<open>
  Modelled from the spec: \<open>AudioPlayer.suspend()\<close>, not among the sources (spec 4.2:
  meaningful only from PLAYING, a no-op from any other state).
\<close>

definition suspend :: "audioPlayer \<Rightarrow> audioPlayer" where
  "suspend p = (if playback p = PLAYING then p\<lparr>playback := SUSPENDED\<rparr> else p)"

subsection \<open>Interaction model and utterances\<close>

text \<open>
  Modelled from the spec: the class Utterance, not among the sources. An utterance object
  is represented by what its methods return: \<open>matched()\<close>, \<open>intent()\<close>, \<open>toJSON()\<close>
  (the object of slot values, given as the list of its properties) and the string the
  object converts to when it is concatenated to a string.
\<close>

record utterance =
  utt_phrase :: string
  utt_matched :: bool
  utt_intent :: string
  utt_toJSON :: "(string \<times> json) list"
  utt_toString :: string

text \<open>
  Modelled from the spec: the class InteractionModel, not among the sources. The matching
  algorithm run by \<open>new Utterance(model, phrase)\<close> is a parameter of the model, and
  \<open>defaultUtterance\<close> is the phrase of \<open>sampleUtterances.defaultUtterance()\<close>.
\<close>

record interactionModel =
  newUtterance :: "string \<Rightarrow> utterance"
  defaultUtterance :: string

subsection \<open>Skill context\<close>

text \<open>
  Modelled from the spec: the class SkillContext, not among the sources (spec 3: it owns
  one session and one audio player, refers to the interaction model and holds the
  application identifier). \<open>sessionCounter\<close> is the supply of fresh session identifiers.
  \<open>audioPlayerEnabled\<close> is what the method \<open>audioPlayerEnabled()\<close>, called by the
  interactor, returns. The specification has no such flag: its skill context always owns
  an audio player, and the constructor of the interactor always gives it one. The field
  is set by the constructor and no operation changes it.
\<close>

record skillContext =
  interactionModel :: interactionModel
  audioPlayer :: audioPlayer
  audioPlayerEnabled :: bool
  applicationID :: json
  session :: session
  sessionCounter :: nat

text \<open>
  Modelled from the spec: \<open>SkillContext.activeSession()\<close>, not among the sources
  (spec 3: the is-active flag of the session).
\<close>

definition activeSession :: "skillContext \<Rightarrow> bool" where
  "activeSession c = isActive (session c)"

text \<open>
  Modelled from the spec: \<open>SkillContext.newSession()\<close>, not among the sources (spec 4.2:
  a brand-new session, new identifier, empty attributes, new and active).
\<close>

definition newSession :: "skillContext \<Rightarrow> skillContext" where
  "newSession c =
     c\<lparr>session := \<lparr>sessionId = sessionCounter c, attributes = JObj [],
                     isNew = True, isActive = True\<rparr>,
       sessionCounter := Suc (sessionCounter c)\<rparr>"

text \<open>
  Modelled from the spec: \<open>SkillContext.endSession()\<close>, not among the sources (spec 3:
  is-active is false after termination).
\<close>

definition endSession :: "skillContext \<Rightarrow> skillContext" where
  "endSession c = c\<lparr>session := (session c)\<lparr>isActive := False\<rparr>\<rparr>"

subsection \<open>Requests\<close>

text \<open>
  Modelled from the spec: the enumeration SessionEndedReason, not among the sources
  (spec 4.3: user-initiated, error, or exceeded-max-reprompts). SkillInteractor.ts names
  the member \<open>ERROR\<close>.
\<close>

datatype sessionEndedReason = ERROR | USER_INITIATED | EXCEEDED_MAX_REPROMPTS

text \<open>
  Modelled from the spec: the class SkillRequest, not among the sources (spec 4.3: three
  shapes). A request object keeps a reference to the skill context it was created with,
  so serialisation reads the context as it is when \<open>toJSON\<close> runs; the model passes
  that context to \<open>toJSON\<close>.
\<close>

datatype skillRequest =
    LaunchRequest
  | IntentRequest string "(string \<times> json) list"
  | SessionEndedRequest sessionEndedReason json

text \<open>
  Modelled from the spec: \<open>launchRequest()\<close> and \<open>sessionEndedRequest(reason, errorData)\<close>
  of SkillRequest, not among the sources (spec 4.3: the launch shape carries no data; the
  session-ended shape carries the reason and the error payload).
\<close>

definition launchRequest :: skillRequest where
  "launchRequest = LaunchRequest"

definition sessionEndedRequest :: "sessionEndedReason \<Rightarrow> json \<Rightarrow> skillRequest" where
  "sessionEndedRequest reason errorData = SessionEndedRequest reason errorData"

text \<open>
  Modelled from the spec: \<open>SkillRequest.requiresSession()\<close>, not among the sources
  (spec 4.3: true for all three current shapes).
\<close>

fun requiresSession :: "skillRequest \<Rightarrow> bool" where
  "requiresSession LaunchRequest = True"
| "requiresSession (IntentRequest n slots) = True"
| "requiresSession (SessionEndedRequest r e) = True"

text \<open>
  Modelled from the spec: the names of the termination reasons in the envelope, not
  among the sources (spec 4.3: a closed enumeration).
\<close>

fun reasonName :: "sessionEndedReason \<Rightarrow> string" where
  "reasonName ERROR = ''ERROR''"
| "reasonName USER_INITIATED = ''USER_INITIATED''"
| "reasonName EXCEEDED_MAX_REPROMPTS = ''EXCEEDED_MAX_REPROMPTS''"

text \<open>
  Modelled from the spec: the request block of \<open>SkillRequest.toJSON()\<close>, not among the
  sources (spec 4.3: launch carries only the type tag; intent carries the name and the
  slot map; session-ended carries the reason and, when the reason is error, the error
  payload). Timestamps and request identifiers are left out.
\<close>

fun typeTag :: "skillRequest \<Rightarrow> string" where
  "typeTag LaunchRequest = ''LaunchRequest''"
| "typeTag (IntentRequest n slots) = ''IntentRequest''"
| "typeTag (SessionEndedRequest r e) = ''SessionEndedRequest''"

fun requestBody :: "skillRequest \<Rightarrow> (string \<times> json) list" where
  "requestBody LaunchRequest = []"
| "requestBody (IntentRequest n slots) =
     [(''intent'', JObj [(''name'', JStr n), (''slots'', JObj slots)])]"
| "requestBody (SessionEndedRequest r e) =
     (''reason'', JStr (reasonName r)) # (if r = ERROR then [(''error'', e)] else [])"

definition requestBlock :: "skillRequest \<Rightarrow> json" where
  "requestBlock r = JObj ((''type'', JStr (typeTag r)) # requestBody r)"

text \<open>
  Modelled from the spec: \<open>SkillRequest.toJSON()\<close>, not among the sources (spec 6:
  version tag, session block with id, new flag, attributes and application id, request
  block).
\<close>

definition toJSON :: "skillContext \<Rightarrow> skillRequest \<Rightarrow> json" where
  "toJSON c r =
     JObj [(''version'', JStr ''1.0''),
           (''session'',
              JObj [(''id'', JNum (int (sessionId (session c)))),
                    (''new'', JBool (isNew (session c))),
                    (''attributes'', attributes (session c)),
                    (''application'', JObj [(''id'', applicationID c)])]),
           (''request'', requestBlock r)]"

text \<open>
  The specification says that building an intent request can fail synchronously but not
  when, so the two fallible steps of the builder are parameters: \<open>intentRequest\<close>
  (which sees the context the request is created with) and \<open>withSlot\<close>.
\<close>

record requestBuilder =
  intentRequest :: "skillContext \<Rightarrow> string \<Rightarrow> fault + skillRequest"
  withSlot :: "skillRequest \<Rightarrow> string \<Rightarrow> json \<Rightarrow> fault + skillRequest"

text \<open>
  Modelled from the spec: a builder that never fails (spec 4.3: slots are added one at a
  time, a slot whose value is undefined is omitted; spec 3, I2: unknown slot names are
  still attached).
\<close>

fun addSlot :: "skillRequest \<Rightarrow> string \<Rightarrow> json \<Rightarrow> skillRequest" where
  "addSlot (IntentRequest n slots) k v =
     (if v = JUndefined then IntentRequest n slots
      else IntentRequest n (AList.update k v slots))"
| "addSlot r k v = r"

definition specBuilder :: requestBuilder where
  "specBuilder =
     \<lparr>intentRequest = (\<lambda>c n. Inr (IntentRequest n [])),
      withSlot = (\<lambda>r k v. Inr (addSlot r k v))\<rparr>"

text \<open>
  A builder that validates the intent name against a list of declared intents, as an
  example of a collaborator whose construction step can raise.
\<close>

definition validatingBuilder :: "string list \<Rightarrow> requestBuilder" where
  "validatingBuilder declared =
     \<lparr>intentRequest = (\<lambda>c n. if n \<in> set declared then Inr (IntentRequest n [])
                              else Inl (Raised (JStr (''Interaction model has no intent named: '' @ n)))),
      withSlot = (\<lambda>r k v. Inr (addSlot r k v))\<rparr>"

section \<open>State, console and promises\<close>

text \<open>
  What the interactor writes to the console. A warning and a log entry are finished
  strings. An error entry keeps its literal prefix and the value that
  \<open>JSON.stringify(_, null, 2)\<close> has accepted; the indented text it produces is not
  modelled.
\<close>

datatype consoleEntry =
    ConsoleWarn string
  | ConsoleError string json
  | ConsoleLog string

text \<open>The state an operation runs in: the interactor's skill context, and the console.\<close>

record interactor =
  skillContext :: skillContext
  console :: "consoleEntry list"

text \<open>
  The only suspension point of an operation is the call of the invocation collaborator.
  Each operation is therefore given in two parts. The synchronous part runs up to that
  call and returns what the caller holds at that moment: nothing, because an exception
  escaped (\<open>Thrown\<close>); a promise that is already rejected (\<open>Rejected\<close>); or a promise
  that waits for the collaborator, which has just received the envelope (\<open>Pending\<close>).
  The continuation (suffix \<open>_then\<close>) runs when the collaborator settles, on the state
  as it is at that later moment, and returns how the operation's promise settles:
  \<open>Inl\<close> a rejection, \<open>Inr\<close> the value it fulfils with.
\<close>

datatype promise = Thrown fault | Rejected fault | Pending json

text \<open>
  A request filter mutates the envelope in place. It is modelled by a pair: how the call
  ends (\<open>Inl\<close> what it throws, \<open>Inr\<close> the value it returns), and the envelope as it
  leaves it.
\<close>

type_synonym requestFilter = "json \<Rightarrow> (fault + json) \<times> json"

definition say :: "consoleEntry \<Rightarrow> interactor \<Rightarrow> interactor" where
  "say e st = st\<lparr>console := console st @ [e]\<rparr>"

text \<open>The loop \<open>for (const slotName of Object.keys(slots)) serviceRequest.withSlot(...)\<close>.\<close>

fun withSlots :: "requestBuilder \<Rightarrow> skillRequest \<Rightarrow> (string \<times> json) list \<Rightarrow> fault + skillRequest" where
  "withSlots B r [] = Inr r"
| "withSlots B r ((k, v) # kvs) =
     (case withSlot B r k v of
        Inl e \<Rightarrow> Inl e
      | Inr r' \<Rightarrow> withSlots B r' kvs)"

section \<open>The abstract interactor (src/unnamed/part\_000)\<close>

text \<open>
  \<open>callSkill\<close> is an \<open>async\<close> function: a fault in its synchronous part rejects the
  promise it returns.
\<close>

definition callSkill_A :: "skillRequest \<Rightarrow> requestFilter option \<Rightarrow> interactor \<Rightarrow> promise \<times> interactor" where
  "callSkill_A serviceRequest requestFilter st =
     (let c = skillContext st;
          c1 = (if requiresSession serviceRequest \<and> \<not> activeSession c then newSession c else c);
          st1 = st\<lparr>skillContext := c1\<rparr>;
          requestJSON = toJSON c1 serviceRequest
      in case (case requestFilter of
                 None \<Rightarrow> Inr requestJSON
               | Some f \<Rightarrow> (case fst (f requestJSON) of
                              Inl e \<Rightarrow> Inl e
                            | Inr v \<Rightarrow> Inr (snd (f requestJSON)))) of
           Inl e \<Rightarrow> (Rejected e, st1)
         | Inr requestJSON' \<Rightarrow>
             (case getProp requestJSON' ''request'' of
                Inl e \<Rightarrow> (Rejected e, st1)
              | Inr rq \<Rightarrow>
                  (case getProp rq ''type'' of
                     Inl e \<Rightarrow> (Rejected e, st1)
                   | Inr t \<Rightarrow>
                       (case jsToString t of
                          Inl e \<Rightarrow> (Rejected e, st1)
                        | Inr ts \<Rightarrow> (Pending requestJSON', say (ConsoleLog (''CALLING: '' @ ts)) st1)))))"

text \<open>\<open>result && result.response && result.response.shouldEndSession\<close>, as a condition.\<close>

definition shouldEnd_A :: "json \<Rightarrow> bool" where
  "shouldEnd_A result =
     (truthy result \<and> truthy (propOf result ''response'')
      \<and> truthy (propOf (propOf result ''response'') ''shouldEndSession''))"

text \<open>The code of \<open>callSkill\<close> after \<open>await this.invoke(requestJSON)\<close>.\<close>

definition callSkill_A_then :: "fault + json \<Rightarrow> interactor \<Rightarrow> (fault + json) \<times> interactor" where
  "callSkill_A_then outcome st =
     (case outcome of
        Inl e \<Rightarrow> (Inl e, st)
      | Inr result \<Rightarrow>
          (let c = skillContext st in
           if activeSession c then
             (let c1 = c\<lparr>session := used (session c)\<rparr> in
              if shouldEnd_A result then (Inr result, st\<lparr>skillContext := endSession c1\<rparr>)
              else
                (case getProp result ''sessionAttributes'' of
                   Inl e \<Rightarrow> (Inl e, st\<lparr>skillContext := c1\<rparr>)
                 | Inr a \<Rightarrow>
                     (Inr result,
                      st\<lparr>skillContext := c1\<lparr>session := updateAttributes (session c1) a\<rparr>\<rparr>)))
           else (Inr result, st)))"

definition callSkillWithIntent_A ::
  "requestBuilder \<Rightarrow> string \<Rightarrow> json \<Rightarrow> requestFilter option \<Rightarrow> interactor \<Rightarrow> promise \<times> interactor" where
  "callSkillWithIntent_A B intentName slots requestFilter st =
     (let c = skillContext st;
          c1 = (if audioPlayerEnabled c \<and> isPlaying (audioPlayer c)
                then c\<lparr>audioPlayer := suspend (audioPlayer c)\<rparr> else c);
          st1 = st\<lparr>skillContext := c1\<rparr>
      in case intentRequest B c1 intentName of
           Inl e \<Rightarrow> (Thrown e, st1)
         | Inr serviceRequest \<Rightarrow>
             (case (if slots \<noteq> JUndefined \<and> slots \<noteq> JNull
                    then withSlots B serviceRequest (ownEntries slots)
                    else Inr serviceRequest) of
                Inl e \<Rightarrow> (Thrown e, st1)
              | Inr serviceRequest' \<Rightarrow> callSkill_A serviceRequest' requestFilter st1))"

definition spoken_A ::
  "requestBuilder \<Rightarrow> string \<Rightarrow> requestFilter option \<Rightarrow> interactor \<Rightarrow> promise \<times> interactor" where
  "spoken_A B utteranceString requestFilter st =
     (let model = interactionModel (skillContext st);
          utterance = newUtterance model utteranceString
      in if \<not> utt_matched utterance then
           (let defaultPhrase = defaultUtterance model;
                utterance' = newUtterance model defaultPhrase;
                st1 = say (ConsoleWarn (''No intentName matches utterance: '' @ utt_toString utterance'
                             @ ''. Using fallback utterance: '' @ defaultPhrase)) st
            in callSkillWithIntent_A B (utt_intent utterance') (JObj (utt_toJSON utterance')) requestFilter st1)
         else callSkillWithIntent_A B (utt_intent utterance) (JObj (utt_toJSON utterance)) requestFilter st)"

definition launched_A :: "requestFilter option \<Rightarrow> interactor \<Rightarrow> promise \<times> interactor" where
  "launched_A requestFilter st = callSkill_A launchRequest requestFilter st"

text \<open>
  \<open>sessionEnded\<close> is an ordinary method: when \<open>JSON.stringify\<close> throws on the error
  data, the exception leaves it before anything is built.
\<close>

definition sessionEnded_A ::
  "sessionEndedReason \<Rightarrow> json \<Rightarrow> requestFilter option \<Rightarrow> interactor \<Rightarrow> promise \<times> interactor" where
  "sessionEnded_A sessionEndedReason errorData requestFilter st =
     (if sessionEndedReason = ERROR \<and> \<not> serialisable errorData
      then (Thrown (TypeError ''Do not know how to serialize a BigInt''), st)
      else
        (let st1 = (if sessionEndedReason = ERROR
                    then say (ConsoleError (''SessionEndedRequest:'' @ [CHR 0x0A]) errorData) st
                    else st);
             serviceRequest = sessionEndedRequest sessionEndedReason errorData
         in callSkill_A serviceRequest requestFilter st1))"

text \<open>
  \<open>callSkill(...).then(() => { this.context().endSession(); })\<close>: the callback runs
  only when the promise of \<open>callSkill\<close> fulfils, and the resulting promise fulfils with
  \<open>undefined\<close>.
\<close>

definition sessionEnded_A_then :: "fault + json \<Rightarrow> interactor \<Rightarrow> (fault + json) \<times> interactor" where
  "sessionEnded_A_then outcome st =
     (case callSkill_A_then outcome st of
        (Inl e, st') \<Rightarrow> (Inl e, st')
      | (Inr result, st') \<Rightarrow> (Inr JUndefined, st'\<lparr>skillContext := endSession (skillContext st')\<rparr>))"

text \<open>\<open>try { return this.callSkillWithIntent(...) } catch (e) { return Promise.reject(e) }\<close>.\<close>

definition intended_A ::
  "requestBuilder \<Rightarrow> string \<Rightarrow> json \<Rightarrow> requestFilter option \<Rightarrow> interactor \<Rightarrow> promise \<times> interactor" where
  "intended_A B intentName slots requestFilter st =
     (case callSkillWithIntent_A B intentName slots requestFilter st of
        (Thrown e, st') \<Rightarrow> (Rejected e, st')
      | (p, st') \<Rightarrow> (p, st'))"

section \<open>The interactor with a handler (src/SkillInteractor.ts)\<close>

text \<open>
  Here \<open>callSkill\<close> is an ordinary function that returns
  \<open>ModuleInvoker.invoke(this.handler, requestJSON).then(...)\<close>: a fault in its
  synchronous part is thrown to the caller. There is no request filter. The handler is
  fixed when the interactor is constructed and is left out of the state. The invoker is
  not among the sources; it is taken to return a promise.
\<close>

definition callSkill_M :: "skillRequest \<Rightarrow> interactor \<Rightarrow> promise \<times> interactor" where
  "callSkill_M serviceRequest st =
     (let c = skillContext st;
          c1 = (if requiresSession serviceRequest \<and> \<not> activeSession c then newSession c else c);
          st1 = st\<lparr>skillContext := c1\<rparr>;
          requestJSON = toJSON c1 serviceRequest
      in case getProp requestJSON ''request'' of
           Inl e \<Rightarrow> (Thrown e, st1)
         | Inr rq \<Rightarrow>
             (case getProp rq ''type'' of
                Inl e \<Rightarrow> (Thrown e, st1)
              | Inr t \<Rightarrow>
                  (case jsToString t of
                     Inl e \<Rightarrow> (Thrown e, st1)
                   | Inr ts \<Rightarrow> (Pending requestJSON, say (ConsoleLog (''CALLING: '' @ ts)) st1))))"

text \<open>\<open>result && result.shouldEndSession\<close>, as a condition.\<close>

definition shouldEnd_M :: "json \<Rightarrow> bool" where
  "shouldEnd_M result = (truthy result \<and> truthy (propOf result ''shouldEndSession''))"

text \<open>
  The callback given to \<open>then\<close>. It returns nothing, so the promise fulfils with
  \<open>undefined\<close>; when the invocation rejects the callback is skipped.
\<close>

definition callSkill_M_then :: "fault + json \<Rightarrow> interactor \<Rightarrow> (fault + json) \<times> interactor" where
  "callSkill_M_then outcome st =
     (case outcome of
        Inl e \<Rightarrow> (Inl e, st)
      | Inr result \<Rightarrow>
          (let c = skillContext st in
           if activeSession c then
             (let c1 = c\<lparr>session := used (session c)\<rparr> in
              if shouldEnd_M result then (Inr JUndefined, st\<lparr>skillContext := endSession c1\<rparr>)
              else
                (case getProp result ''sessionAttributes'' of
                   Inl e \<Rightarrow> (Inl e, st\<lparr>skillContext := c1\<rparr>)
                 | Inr a \<Rightarrow>
                     (Inr JUndefined,
                      st\<lparr>skillContext := c1\<lparr>session := updateAttributes (session c1) a\<rparr>\<rparr>)))
           else (Inr JUndefined, st)))"

definition callSkillWithIntent_M ::
  "requestBuilder \<Rightarrow> string \<Rightarrow> json \<Rightarrow> interactor \<Rightarrow> promise \<times> interactor" where
  "callSkillWithIntent_M B intentName slots st =
     (let c = skillContext st;
          c1 = (if audioPlayerEnabled c \<and> isPlaying (audioPlayer c)
                then c\<lparr>audioPlayer := suspend (audioPlayer c)\<rparr> else c);
          st1 = st\<lparr>skillContext := c1\<rparr>
      in case intentRequest B c1 intentName of
           Inl e \<Rightarrow> (Thrown e, st1)
         | Inr serviceRequest \<Rightarrow>
             (case (if slots \<noteq> JUndefined \<and> slots \<noteq> JNull
                    then withSlots B serviceRequest (ownEntries slots)
                    else Inr serviceRequest) of
                Inl e \<Rightarrow> (Thrown e, st1)
              | Inr serviceRequest' \<Rightarrow> callSkill_M serviceRequest' st1))"

definition spoken_M :: "requestBuilder \<Rightarrow> string \<Rightarrow> interactor \<Rightarrow> promise \<times> interactor" where
  "spoken_M B utteranceString st =
     (let model = interactionModel (skillContext st);
          utterance = newUtterance model utteranceString
      in if \<not> utt_matched utterance then
           (let defaultPhrase = defaultUtterance model;
                utterance' = newUtterance model defaultPhrase;
                st1 = say (ConsoleWarn (''No intentName matches utterance: '' @ utt_toString utterance'
                             @ ''. Using fallback utterance: '' @ defaultPhrase)) st
            in callSkillWithIntent_M B (utt_intent utterance') (JObj (utt_toJSON utterance')) st1)
         else callSkillWithIntent_M B (utt_intent utterance) (JObj (utt_toJSON utterance)) st)"

definition launched_M :: "interactor \<Rightarrow> promise \<times> interactor" where
  "launched_M st = callSkill_M launchRequest st"

text \<open>
  \<open>const promise = this.callSkill(serviceRequest); this.context().endSession(); return promise\<close>:
  the session is ended in the synchronous part, unless \<open>JSON.stringify\<close> or
  \<open>callSkill\<close> threw.
\<close>

definition sessionEnded_M :: "sessionEndedReason \<Rightarrow> json \<Rightarrow> interactor \<Rightarrow> promise \<times> interactor" where
  "sessionEnded_M sessionEndedReason errorData st =
     (if sessionEndedReason = ERROR \<and> \<not> serialisable errorData
      then (Thrown (TypeError ''Do not know how to serialize a BigInt''), st)
      else
        (let st1 = (if sessionEndedReason = ERROR
                    then say (ConsoleError (''SessionEndedRequest:'' @ [CHR 0x0A]) errorData) st
                    else st);
             serviceRequest = sessionEndedRequest sessionEndedReason errorData
         in case callSkill_M serviceRequest st1 of
              (Thrown e, st') \<Rightarrow> (Thrown e, st')
            | (p, st') \<Rightarrow> (p, st'\<lparr>skillContext := endSession (skillContext st')\<rparr>)))"

definition intended_M :: "requestBuilder \<Rightarrow> string \<Rightarrow> json \<Rightarrow> interactor \<Rightarrow> promise \<times> interactor" where
  "intended_M B intentName slots st = callSkillWithIntent_M B intentName slots st"

section \<open>Auxiliary definitions\<close>

text \<open>The first statement of \<open>callSkill\<close>: create a session if the request needs one and none is active.\<close>

definition ensureSession :: "skillRequest \<Rightarrow> skillContext \<Rightarrow> skillContext" where
  "ensureSession r c = (if requiresSession r \<and> \<not> activeSession c then newSession c else c)"

text \<open>The warnings on the console, in order.\<close>

fun warnings :: "consoleEntry list \<Rightarrow> string list" where
  "warnings [] = []"
| "warnings (ConsoleWarn m # es) = m # warnings es"
| "warnings (ConsoleError p v # es) = warnings es"
| "warnings (ConsoleLog m # es) = warnings es"


text \<open>Two request filters: one stamps a field on the envelope, one sets the request block to null.\<close>

definition stampFilter :: requestFilter where
  "stampFilter e = (Inr (JStr ''returned''), setProp e ''stamp'' (JNum 7))"

definition dropRequestFilter :: requestFilter where
  "dropRequestFilter e = (Inr JUndefined, setProp e ''request'' JNull)"

text \<open>
  A filter that replaces the type of the request by an object whose own \<open>toString\<close>
  property is null, and a filter that throws.
\<close>

definition hideTypeFilter :: requestFilter where
  "hideTypeFilter e =
     (Inr JUndefined,
      setProp e ''request'' (setProp (propOf e ''request'') ''type'' (JObj [(''toString'', JNull)])))"

definition throwingFilter :: requestFilter where
  "throwingFilter e = (Inl (Raised (JStr ''filter failed'')), e)"

text \<open>
  The constructor, the same in both sources: a new audio player, a skill context that
  owns it, and a first session. The context is given an audio player, so audio player
  support is enabled.
\<close>

definition newInteractor :: "interactionModel \<Rightarrow> json \<Rightarrow> interactor" where
  "newInteractor model appId =
     \<lparr>skillContext =
        newSession
          \<lparr>interactionModel = model,
           audioPlayer = \<lparr>playback = IDLE, playing = None\<rparr>,
           audioPlayerEnabled = True,
           applicationID = appId,
           session = \<lparr>sessionId = 0, attributes = JObj [], isNew = False, isActive = False\<rparr>,
           sessionCounter = 0\<rparr>,
      console = []\<rparr>"

section \<open>An example skill\<close>

text \<open>
  The scenario of the specification (8): one intent \<open>HelloIntent\<close> with the template
  \<open>hello\<close>, and the default phrase \<open>help\<close>. It serves as the concrete input of
  the examples below.
\<close>

definition helloModel :: interactionModel where
  "helloModel =
     \<lparr>newUtterance = (\<lambda>p.
         if p = ''hello'' then
           \<lparr>utt_phrase = p, utt_matched = True, utt_intent = ''HelloIntent'',
            utt_toJSON = [], utt_toString = ''[object Object]''\<rparr>
         else if p = ''help'' then
           \<lparr>utt_phrase = p, utt_matched = True, utt_intent = ''HelpIntent'',
            utt_toJSON = [], utt_toString = ''[object Object]''\<rparr>
         else
           \<lparr>utt_phrase = p, utt_matched = False, utt_intent = ''undefined'',
            utt_toJSON = [], utt_toString = ''[object Object]''\<rparr>),
      defaultUtterance = ''help''\<rparr>"

text \<open>
  A state of the example skill, given the playback state, whether audio player support is
  enabled, and whether the session (number 0, already used) is active.
\<close>

definition helloState :: "playback \<Rightarrow> bool \<Rightarrow> bool \<Rightarrow> interactor" where
  "helloState pb enabled active =
     \<lparr>skillContext =
        \<lparr>interactionModel = helloModel,
         audioPlayer = \<lparr>playback = pb, playing = (if pb = IDLE then None else Some (''track'', 0))\<rparr>,
         audioPlayerEnabled = enabled,
         applicationID = JStr ''app'',
         session = \<lparr>sessionId = 0, attributes = JObj [(''count'', JNum 1)],
                    isNew = False, isActive = active\<rparr>,
         sessionCounter = 1\<rparr>,
      console = []\<rparr>"

text \<open>
  A second skill, whose default phrase carries a slot: \<open>weather in paris\<close> resolves to
  \<open>WeatherIntent\<close> with the slot \<open>city\<close>.
\<close>

definition weatherModel :: interactionModel where
  "weatherModel =
     \<lparr>newUtterance = (\<lambda>p.
         if p = ''weather in paris'' then
           \<lparr>utt_phrase = p, utt_matched = True, utt_intent = ''WeatherIntent'',
            utt_toJSON = [(''city'', JStr ''paris'')], utt_toString = ''[object Object]''\<rparr>
         else
           \<lparr>utt_phrase = p, utt_matched = False, utt_intent = ''undefined'',
            utt_toJSON = [], utt_toString = ''[object Object]''\<rparr>),
      defaultUtterance = ''weather in paris''\<rparr>"

definition weatherState :: interactor where
  "weatherState = newInteractor weatherModel (JStr ''weather-app'')"

section \<open>Basic facts\<close>

text \<open>
  A truthy value is neither null nor undefined, so the property reads in
  \<open>result && result.response && result.response.shouldEndSession\<close> cannot throw.
\<close>

lemma truthy_not_nullish: "truthy v \<Longrightarrow> \<not> nullish v"
  by (cases v) auto

lemma requiresSession_all: "requiresSession r"
  by (cases r) auto

lemma getProp_request_toJSON: "getProp (toJSON c r) ''request'' = Inr (requestBlock r)"
  by (simp add: getProp_def toJSON_def)

lemma getProp_type_requestBlock: "getProp (requestBlock r) ''type'' = Inr (JStr (typeTag r))"
  by (simp add: getProp_def requestBlock_def)

lemma callSkill_M_eq:
  "callSkill_M r st =
     (Pending (toJSON (ensureSession r (skillContext st)) r),
      say (ConsoleLog (''CALLING: '' @ typeTag r)) (st\<lparr>skillContext := ensureSession r (skillContext st)\<rparr>))"
  by (simp add: callSkill_M_def ensureSession_def Let_def getProp_request_toJSON getProp_type_requestBlock)

lemma callSkill_A_None_eq:
  "callSkill_A r None st =
     (Pending (toJSON (ensureSession r (skillContext st)) r),
      say (ConsoleLog (''CALLING: '' @ typeTag r)) (st\<lparr>skillContext := ensureSession r (skillContext st)\<rparr>))"
  by (simp add: callSkill_A_def ensureSession_def Let_def getProp_request_toJSON getProp_type_requestBlock)

lemma skillContext_say [simp]: "skillContext (say e st) = skillContext st"
  by (simp add: say_def)

lemma console_say [simp]: "console (say e st) = console st @ [e]"
  by (simp add: say_def)

lemma callSkill_A_context:
  "skillContext (snd (callSkill_A r f st)) = ensureSession r (skillContext st)"
  by (simp add: callSkill_A_def ensureSession_def Let_def split: sum.splits option.splits)

lemma callSkill_M_context:
  "skillContext (snd (callSkill_M r st)) = ensureSession r (skillContext st)"
  by (simp add: callSkill_M_eq)

lemma activeSession_ensureSession: "requiresSession r \<Longrightarrow> activeSession (ensureSession r c)"
  by (simp add: ensureSession_def activeSession_def newSession_def)

lemma callSkillWithIntent_A_cases:
  "(\<exists>e. fst (callSkillWithIntent_A B n s f st) = Thrown e) \<or>
   (\<exists>r st1. callSkillWithIntent_A B n s f st = callSkill_A r f st1)"
  by (auto simp: callSkillWithIntent_A_def Let_def split: sum.splits)

lemma callSkillWithIntent_M_cases:
  "(\<exists>e. fst (callSkillWithIntent_M B n s st) = Thrown e) \<or>
   (\<exists>r st1. callSkillWithIntent_M B n s st = callSkill_M r st1)"
  by (auto simp: callSkillWithIntent_M_def Let_def split: sum.splits)

lemma callSkillWithIntent_A_active:
  "fst (callSkillWithIntent_A B n s f st) = Pending env \<Longrightarrow>
   activeSession (skillContext (snd (callSkillWithIntent_A B n s f st)))"
  using callSkillWithIntent_A_cases [of B n s f st]
  by (auto simp: callSkill_A_context activeSession_ensureSession requiresSession_all)

lemma callSkillWithIntent_M_active:
  "fst (callSkillWithIntent_M B n s st) = Pending env \<Longrightarrow>
   activeSession (skillContext (snd (callSkillWithIntent_M B n s st)))"
  using callSkillWithIntent_M_cases [of B n s st]
  by (auto simp: callSkill_M_context activeSession_ensureSession requiresSession_all)

lemma spoken_A_active:
  "fst (spoken_A B t f st) = Pending env \<Longrightarrow>
   activeSession (skillContext (snd (spoken_A B t f st)))"
  by (auto simp: spoken_A_def Let_def callSkillWithIntent_A_active split: if_splits)

lemma spoken_M_active:
  "fst (spoken_M B t st) = Pending env \<Longrightarrow>
   activeSession (skillContext (snd (spoken_M B t st)))"
  by (auto simp: spoken_M_def Let_def callSkillWithIntent_M_active split: if_splits)

lemma intended_A_active:
  "fst (intended_A B n s f st) = Pending env \<Longrightarrow>
   activeSession (skillContext (snd (intended_A B n s f st)))"
  using callSkillWithIntent_A_active [of B n s f st env]
  by (auto simp: intended_A_def split: prod.splits promise.splits)

lemma launched_A_active:
  "activeSession (skillContext (snd (launched_A f st)))"
  by (simp add: launched_A_def callSkill_A_context activeSession_ensureSession requiresSession_all)

lemma launched_M_active:
  "activeSession (skillContext (snd (launched_M st)))"
  by (simp add: launched_M_def callSkill_M_context activeSession_ensureSession requiresSession_all)

text \<open>\<open>sessionEnded\<close> when the error data can be logged, or need not be.\<close>

lemma sessionEnded_A_eq:
  "r \<noteq> ERROR \<or> serialisable e \<Longrightarrow>
   sessionEnded_A r e f st =
     callSkill_A (sessionEndedRequest r e) f
       (if r = ERROR then say (ConsoleError (''SessionEndedRequest:'' @ [CHR 0x0A]) e) st else st)"
  by (auto simp: sessionEnded_A_def Let_def)

lemma sessionEnded_A_throws:
  "r = ERROR \<Longrightarrow> \<not> serialisable e \<Longrightarrow>
   sessionEnded_A r e f st = (Thrown (TypeError ''Do not know how to serialize a BigInt''), st)"
  by (simp add: sessionEnded_A_def)

lemma sessionEnded_M_eq:
  "r \<noteq> ERROR \<or> serialisable e \<Longrightarrow>
   sessionEnded_M r e st =
     (fst (callSkill_M (sessionEndedRequest r e)
             (if r = ERROR then say (ConsoleError (''SessionEndedRequest:'' @ [CHR 0x0A]) e) st else st)),
      (snd (callSkill_M (sessionEndedRequest r e)
             (if r = ERROR then say (ConsoleError (''SessionEndedRequest:'' @ [CHR 0x0A]) e) st else st)))
        \<lparr>skillContext := endSession (skillContext (snd (callSkill_M (sessionEndedRequest r e)
             (if r = ERROR then say (ConsoleError (''SessionEndedRequest:'' @ [CHR 0x0A]) e) st else st))))\<rparr>)"
  by (auto simp: sessionEnded_M_def Let_def callSkill_M_eq)

lemma sessionEnded_M_throws:
  "r = ERROR \<Longrightarrow> \<not> serialisable e \<Longrightarrow>
   sessionEnded_M r e st = (Thrown (TypeError ''Do not know how to serialize a BigInt''), st)"
  by (simp add: sessionEnded_M_def)

lemma sessionEnded_A_pending_cond:
  "fst (sessionEnded_A r e f st) = Pending env \<Longrightarrow> r \<noteq> ERROR \<or> serialisable e"
  by (cases "serialisable e") (auto simp: sessionEnded_A_def)

lemma sessionEnded_M_pending_cond:
  "fst (sessionEnded_M r e st) = Pending env \<Longrightarrow> r \<noteq> ERROR \<or> serialisable e"
  by (cases "serialisable e") (auto simp: sessionEnded_M_def)

lemma sessionEnded_A_active:
  "r \<noteq> ERROR \<or> serialisable e \<Longrightarrow> activeSession (skillContext (snd (sessionEnded_A r e f st)))"
  by (simp only: sessionEnded_A_eq callSkill_A_context activeSession_ensureSession requiresSession_all)

lemma callSkill_A_envelope:
  "fst (callSkill_A r f st) = Pending env \<Longrightarrow>
   env = (case f of None \<Rightarrow> toJSON (ensureSession r (skillContext st)) r
                  | Some g \<Rightarrow> snd (g (toJSON (ensureSession r (skillContext st)) r)))"
  by (auto simp: callSkill_A_def ensureSession_def Let_def split: sum.splits option.splits)

text \<open>The definitions that evaluate an operation on the example skills.\<close>

lemmas run_defs =
  callSkill_A_def callSkill_M_def callSkillWithIntent_A_def callSkillWithIntent_M_def
  spoken_A_def spoken_M_def launched_A_def launched_M_def sessionEnded_A_def sessionEnded_M_def
  intended_A_def intended_M_def callSkill_A_then_def callSkill_M_then_def sessionEnded_A_then_def
  shouldEnd_A_def shouldEnd_M_def
  helloState_def helloModel_def specBuilder_def validatingBuilder_def
  toJSON_def requestBlock_def getProp_def say_def activeSession_def newSession_def endSession_def
  launchRequest_def sessionEndedRequest_def isPlaying_def suspend_def used_def Let_def
  ownKeys_def isArrayIndex_def digitsValue_def

section \<open>Session creation before dispatch\<close>

text \<open>
  Claim C1. In both interactors \<open>callSkill\<close> leaves its synchronous part with an active
  session whenever the request requires one: the session it found if that was active,
  otherwise a fresh one (new, active, no attributes), created before the envelope is
  serialised, so that the envelope handed to the collaborator is the serialisation of the
  context with that session (passed through the filter, if there is one). Every public
  operation that reaches the collaborator does so through \<open>callSkill\<close>, hence with an
  active session; \<open>sessionEnded\<close> of SkillInteractor.ts ends that session right after
  the dispatch.
\<close>

theorem C1_session_active_at_dispatch:
  "(requiresSession req \<longrightarrow>
      skillContext (snd (callSkill_A req f st))
        = (if activeSession (skillContext st) then skillContext st else newSession (skillContext st))
    \<and> skillContext (snd (callSkill_M req st))
        = (if activeSession (skillContext st) then skillContext st else newSession (skillContext st))
    \<and> activeSession (skillContext (snd (callSkill_A req f st)))
    \<and> activeSession (skillContext (snd (callSkill_M req st)))
    \<and> (fst (callSkill_A req f st) = Pending env \<longrightarrow>
          env = (case f of None \<Rightarrow> toJSON (skillContext (snd (callSkill_A req f st))) req
                         | Some g \<Rightarrow> snd (g (toJSON (skillContext (snd (callSkill_A req f st))) req))))
    \<and> fst (callSkill_M req st) = Pending (toJSON (skillContext (snd (callSkill_M req st))) req))
   \<and> session (newSession c)
        = \<lparr>sessionId = sessionCounter c, attributes = JObj [], isNew = True, isActive = True\<rparr>
   \<and> (fst (spoken_A B t f st) = Pending envSA \<longrightarrow> activeSession (skillContext (snd (spoken_A B t f st))))
   \<and> (fst (launched_A f st) = Pending envLA \<longrightarrow> activeSession (skillContext (snd (launched_A f st))))
   \<and> (fst (intended_A B n s f st) = Pending envIA \<longrightarrow> activeSession (skillContext (snd (intended_A B n s f st))))
   \<and> (fst (sessionEnded_A r e f st) = Pending envEA \<longrightarrow> activeSession (skillContext (snd (sessionEnded_A r e f st))))
   \<and> (fst (spoken_M B t st) = Pending envSM \<longrightarrow> activeSession (skillContext (snd (spoken_M B t st))))
   \<and> (fst (launched_M st) = Pending envLM \<longrightarrow> activeSession (skillContext (snd (launched_M st))))
   \<and> (fst (intended_M B n s st) = Pending envIM \<longrightarrow> activeSession (skillContext (snd (intended_M B n s st))))
   \<and> (fst (sessionEnded_M r e st) = Pending envEM \<longrightarrow>
         (\<exists>st1 st2. callSkill_M (sessionEndedRequest r e) st1 = (Pending envEM, st2)
            \<and> activeSession (skillContext st2)
            \<and> snd (sessionEnded_M r e st) = st2\<lparr>skillContext := endSession (skillContext st2)\<rparr>))"
proof -
  have cs: "requiresSession req \<longrightarrow>
      skillContext (snd (callSkill_A req f st))
        = (if activeSession (skillContext st) then skillContext st else newSession (skillContext st))
    \<and> skillContext (snd (callSkill_M req st))
        = (if activeSession (skillContext st) then skillContext st else newSession (skillContext st))
    \<and> activeSession (skillContext (snd (callSkill_A req f st)))
    \<and> activeSession (skillContext (snd (callSkill_M req st)))
    \<and> (fst (callSkill_A req f st) = Pending env \<longrightarrow>
          env = (case f of None \<Rightarrow> toJSON (skillContext (snd (callSkill_A req f st))) req
                         | Some g \<Rightarrow> snd (g (toJSON (skillContext (snd (callSkill_A req f st))) req))))
    \<and> fst (callSkill_M req st) = Pending (toJSON (skillContext (snd (callSkill_M req st))) req)"
  proof
    assume rs: "requiresSession req"
    have e: "ensureSession req (skillContext st)
        = (if activeSession (skillContext st) then skillContext st else newSession (skillContext st))"
      using rs by (simp add: ensureSession_def)
    have a: "activeSession (ensureSession req (skillContext st))"
      using rs by (rule activeSession_ensureSession)
    have env: "fst (callSkill_A req f st) = Pending env \<longrightarrow>
          env = (case f of None \<Rightarrow> toJSON (skillContext (snd (callSkill_A req f st))) req
                         | Some g \<Rightarrow> snd (g (toJSON (skillContext (snd (callSkill_A req f st))) req)))"
      using callSkill_A_envelope [of req f st env] unfolding callSkill_A_context by blast
    have m: "fst (callSkill_M req st) = Pending (toJSON (skillContext (snd (callSkill_M req st))) req)"
      by (simp add: callSkill_M_eq)
    show "skillContext (snd (callSkill_A req f st))
        = (if activeSession (skillContext st) then skillContext st else newSession (skillContext st))
    \<and> skillContext (snd (callSkill_M req st))
        = (if activeSession (skillContext st) then skillContext st else newSession (skillContext st))
    \<and> activeSession (skillContext (snd (callSkill_A req f st)))
    \<and> activeSession (skillContext (snd (callSkill_M req st)))
    \<and> (fst (callSkill_A req f st) = Pending env \<longrightarrow>
          env = (case f of None \<Rightarrow> toJSON (skillContext (snd (callSkill_A req f st))) req
                         | Some g \<Rightarrow> snd (g (toJSON (skillContext (snd (callSkill_A req f st))) req))))
    \<and> fst (callSkill_M req st) = Pending (toJSON (skillContext (snd (callSkill_M req st))) req)"
      using e a env m by (simp only: callSkill_A_context callSkill_M_context)
  qed
  have fresh: "session (newSession c)
        = \<lparr>sessionId = sessionCounter c, attributes = JObj [], isNew = True, isActive = True\<rparr>"
    by (simp add: newSession_def)
  have se: "fst (sessionEnded_M r e st) = Pending envEM \<longrightarrow>
         (\<exists>st1 st2. callSkill_M (sessionEndedRequest r e) st1 = (Pending envEM, st2)
            \<and> activeSession (skillContext st2)
            \<and> snd (sessionEnded_M r e st) = st2\<lparr>skillContext := endSession (skillContext st2)\<rparr>)"
  proof
    assume p: "fst (sessionEnded_M r e st) = Pending envEM"
    let ?st1 = "if r = ERROR then say (ConsoleError (''SessionEndedRequest:'' @ [CHR 0x0A]) e) st else st"
    let ?d = "callSkill_M (sessionEndedRequest r e) ?st1"
    note ok = sessionEnded_M_pending_cond [OF p]
    have 1: "fst ?d = Pending envEM" using p by (subst (asm) sessionEnded_M_eq [OF ok]) simp
    have 2: "activeSession (skillContext (snd ?d))"
      by (simp only: callSkill_M_context activeSession_ensureSession requiresSession_all)
    have 3: "snd (sessionEnded_M r e st) = (snd ?d)\<lparr>skillContext := endSession (skillContext (snd ?d))\<rparr>"
      by (subst sessionEnded_M_eq [OF ok]) simp
    from 1 have "?d = (Pending envEM, snd ?d)" by (metis prod.collapse)
    with 2 3 show "\<exists>st1 st2. callSkill_M (sessionEndedRequest r e) st1 = (Pending envEM, st2)
            \<and> activeSession (skillContext st2)
            \<and> snd (sessionEnded_M r e st) = st2\<lparr>skillContext := endSession (skillContext st2)\<rparr>"
      by blast
  qed
  have sa: "fst (sessionEnded_A r e f st) = Pending envEA \<longrightarrow>
      activeSession (skillContext (snd (sessionEnded_A r e f st)))"
    using sessionEnded_A_pending_cond [of r e f st envEA] sessionEnded_A_active [of r e f st]
    by blast
  show ?thesis
    using cs fresh se sa spoken_A_active [of B t f st envSA] intended_A_active [of B n s f st envIA]
      spoken_M_active [of B t st envSM] callSkillWithIntent_M_active [of B n s st envIM]
    by (simp only: launched_A_active launched_M_active intended_M_def) blast
qed

text \<open>Claim C1, an instance: every operation on the example skill with no active session.\<close>

theorem C1_session_active_at_dispatch_witness:
  "requiresSession launchRequest
   \<and> \<not> activeSession (skillContext (helloState IDLE False False))
   \<and> fst (callSkill_A launchRequest None (helloState IDLE False False))
       = Pending (toJSON (newSession (skillContext (helloState IDLE False False))) launchRequest)
   \<and> activeSession (skillContext (snd (callSkill_A launchRequest None (helloState IDLE False False))))
   \<and> fst (spoken_A specBuilder ''xyzzy'' None (helloState IDLE False False))
       = Pending (toJSON (newSession (skillContext (helloState IDLE False False))) (IntentRequest ''HelpIntent'' []))
   \<and> activeSession (skillContext (snd (spoken_A specBuilder ''xyzzy'' None (helloState IDLE False False))))
   \<and> fst (launched_A None (helloState IDLE False False))
       = Pending (toJSON (newSession (skillContext (helloState IDLE False False))) launchRequest)
   \<and> activeSession (skillContext (snd (launched_A None (helloState IDLE False False))))
   \<and> fst (intended_A specBuilder ''HelloIntent'' JUndefined None (helloState IDLE False False))
       = Pending (toJSON (newSession (skillContext (helloState IDLE False False))) (IntentRequest ''HelloIntent'' []))
   \<and> activeSession (skillContext (snd (intended_A specBuilder ''HelloIntent'' JUndefined None (helloState IDLE False False))))
   \<and> fst (sessionEnded_A USER_INITIATED JUndefined None (helloState IDLE False False))
       = Pending (toJSON (newSession (skillContext (helloState IDLE False False))) (SessionEndedRequest USER_INITIATED JUndefined))
   \<and> activeSession (skillContext (snd (sessionEnded_A USER_INITIATED JUndefined None (helloState IDLE False False))))
   \<and> fst (spoken_M specBuilder ''xyzzy'' (helloState IDLE False False))
       = Pending (toJSON (newSession (skillContext (helloState IDLE False False))) (IntentRequest ''HelpIntent'' []))
   \<and> activeSession (skillContext (snd (spoken_M specBuilder ''xyzzy'' (helloState IDLE False False))))
   \<and> fst (launched_M (helloState IDLE False False))
       = Pending (toJSON (newSession (skillContext (helloState IDLE False False))) launchRequest)
   \<and> activeSession (skillContext (snd (launched_M (helloState IDLE False False))))
   \<and> fst (intended_M specBuilder ''HelloIntent'' JUndefined (helloState IDLE False False))
       = Pending (toJSON (newSession (skillContext (helloState IDLE False False))) (IntentRequest ''HelloIntent'' []))
   \<and> activeSession (skillContext (snd (intended_M specBuilder ''HelloIntent'' JUndefined (helloState IDLE False False))))
   \<and> fst (sessionEnded_M USER_INITIATED JUndefined (helloState IDLE False False))
       = Pending (toJSON (newSession (skillContext (helloState IDLE False False))) (SessionEndedRequest USER_INITIATED JUndefined))
   \<and> (\<exists>st1 st2. callSkill_M (sessionEndedRequest USER_INITIATED JUndefined) st1
            = (Pending (toJSON (newSession (skillContext (helloState IDLE False False))) (SessionEndedRequest USER_INITIATED JUndefined)), st2)
          \<and> activeSession (skillContext st2)
          \<and> snd (sessionEnded_M USER_INITIATED JUndefined (helloState IDLE False False))
              = st2\<lparr>skillContext := endSession (skillContext st2)\<rparr>)"
proof -
  let ?st = "helloState IDLE False False"
  let ?c = "newSession (skillContext ?st)"
  have h0: "requiresSession launchRequest" by (simp add: launchRequest_def)
  have n0: "\<not> activeSession (skillContext ?st)" by (simp add: helloState_def activeSession_def)
  have h1: "fst (spoken_A specBuilder ''xyzzy'' None ?st) = Pending (toJSON ?c (IntentRequest ''HelpIntent'' []))"
    by (simp add: run_defs)
  have h2: "fst (launched_A None ?st) = Pending (toJSON ?c launchRequest)"
    by (simp add: run_defs)
  have h3: "fst (intended_A specBuilder ''HelloIntent'' JUndefined None ?st) = Pending (toJSON ?c (IntentRequest ''HelloIntent'' []))"
    by (simp add: run_defs)
  have h4: "fst (sessionEnded_A USER_INITIATED JUndefined None ?st) = Pending (toJSON ?c (SessionEndedRequest USER_INITIATED JUndefined))"
    by (simp add: run_defs)
  have h5: "fst (spoken_M specBuilder ''xyzzy'' ?st) = Pending (toJSON ?c (IntentRequest ''HelpIntent'' []))"
    by (simp add: run_defs)
  have h6: "fst (launched_M ?st) = Pending (toJSON ?c launchRequest)"
    by (simp add: run_defs)
  have h7: "fst (intended_M specBuilder ''HelloIntent'' JUndefined ?st) = Pending (toJSON ?c (IntentRequest ''HelloIntent'' []))"
    by (simp add: run_defs)
  have h8: "fst (sessionEnded_M USER_INITIATED JUndefined ?st) = Pending (toJSON ?c (SessionEndedRequest USER_INITIATED JUndefined))"
    by (simp add: run_defs)
  have h9: "fst (callSkill_A launchRequest None ?st) = Pending (toJSON ?c launchRequest)"
    by (simp add: run_defs)
  note C1_session_active_at_dispatch [where req = launchRequest and f = None and st = ?st
      and B = specBuilder and t = "''xyzzy''" and n = "''HelloIntent''" and s = JUndefined
      and r = USER_INITIATED and e = JUndefined
      and envSA = "toJSON ?c (IntentRequest ''HelpIntent'' [])"
      and envLA = "toJSON ?c launchRequest"
      and envIA = "toJSON ?c (IntentRequest ''HelloIntent'' [])"
      and envEA = "toJSON ?c (SessionEndedRequest USER_INITIATED JUndefined)"
      and envSM = "toJSON ?c (IntentRequest ''HelpIntent'' [])"
      and envLM = "toJSON ?c launchRequest"
      and envIM = "toJSON ?c (IntentRequest ''HelloIntent'' [])"
      and envEM = "toJSON ?c (SessionEndedRequest USER_INITIATED JUndefined)"]
  with h0 n0 h1 h2 h3 h4 h5 h6 h7 h8 h9 show ?thesis by blast
qed

section \<open>Suspension before an intent request is built\<close>






lemma callSkill_A_audioPlayer:
  "audioPlayer (skillContext (snd (callSkill_A r f st))) = audioPlayer (skillContext st)"
  by (simp add: callSkill_A_context ensureSession_def newSession_def)

lemma callSkill_M_audioPlayer:
  "audioPlayer (skillContext (snd (callSkill_M r st))) = audioPlayer (skillContext st)"
  by (simp add: callSkill_M_context ensureSession_def newSession_def)

lemma callSkillWithIntent_A_audioPlayer:
  "audioPlayer (skillContext (snd (callSkillWithIntent_A B n s f st)))
     = (if audioPlayerEnabled (skillContext st) \<and> isPlaying (audioPlayer (skillContext st))
        then suspend (audioPlayer (skillContext st)) else audioPlayer (skillContext st))"
  by (simp add: callSkillWithIntent_A_def Let_def callSkill_A_audioPlayer split: sum.splits)

lemma callSkillWithIntent_M_audioPlayer:
  "audioPlayer (skillContext (snd (callSkillWithIntent_M B n s st)))
     = (if audioPlayerEnabled (skillContext st) \<and> isPlaying (audioPlayer (skillContext st))
        then suspend (audioPlayer (skillContext st)) else audioPlayer (skillContext st))"
  by (simp add: callSkillWithIntent_M_def Let_def callSkill_M_audioPlayer split: sum.splits)















lemma callSkill_A_then_audioPlayer:
  "audioPlayer (skillContext (snd (callSkill_A_then out st))) = audioPlayer (skillContext st)"
  by (simp add: callSkill_A_then_def Let_def endSession_def split: sum.splits)

lemma callSkill_M_then_audioPlayer:
  "audioPlayer (skillContext (snd (callSkill_M_then out st))) = audioPlayer (skillContext st)"
  by (simp add: callSkill_M_then_def Let_def endSession_def split: sum.splits)

section \<open>The audio player is changed by suspension only\<close>

text \<open>
  Claim C10. In both interactors the synchronous part of an intent-triggered call leaves
  the audio player as \<open>suspend\<close> makes it when audio player support is enabled and the
  player is playing, and exactly as it was otherwise; the code that runs when the
  collaborator settles does not touch the audio player.
\<close>

theorem C10_audio_player_frame:
  "audioPlayer (skillContext (snd (callSkillWithIntent_A B n s f st)))
     = (if audioPlayerEnabled (skillContext st) \<and> isPlaying (audioPlayer (skillContext st))
        then suspend (audioPlayer (skillContext st)) else audioPlayer (skillContext st))
   \<and> audioPlayer (skillContext (snd (callSkillWithIntent_M B n s st)))
     = (if audioPlayerEnabled (skillContext st) \<and> isPlaying (audioPlayer (skillContext st))
        then suspend (audioPlayer (skillContext st)) else audioPlayer (skillContext st))
   \<and> (\<not> audioPlayerEnabled (skillContext st) \<or> \<not> isPlaying (audioPlayer (skillContext st)) \<longrightarrow>
          audioPlayer (skillContext (snd (callSkillWithIntent_A B n s f st))) = audioPlayer (skillContext st)
        \<and> audioPlayer (skillContext (snd (callSkillWithIntent_M B n s st))) = audioPlayer (skillContext st))
   \<and> audioPlayer (skillContext (snd (callSkill_A_then out st'))) = audioPlayer (skillContext st')
   \<and> audioPlayer (skillContext (snd (callSkill_M_then out st'))) = audioPlayer (skillContext st')"
  by (simp only: callSkillWithIntent_A_audioPlayer callSkillWithIntent_M_audioPlayer
      callSkill_A_then_audioPlayer callSkill_M_then_audioPlayer) simp

text \<open>Claim C10, instances: support disabled with a playing player, a suspended player, a playing player.\<close>

theorem C10_audio_player_frame_witness:
  "\<not> audioPlayerEnabled (skillContext (helloState PLAYING False True))
   \<and> audioPlayer (skillContext (snd (callSkillWithIntent_A specBuilder ''HelloIntent'' JUndefined None
         (helloState PLAYING False True))))
       = \<lparr>playback = PLAYING, playing = Some (''track'', 0)\<rparr>
   \<and> audioPlayer (skillContext (snd (callSkillWithIntent_M specBuilder ''HelloIntent'' JUndefined
         (helloState SUSPENDED True True))))
       = \<lparr>playback = SUSPENDED, playing = Some (''track'', 0)\<rparr>
   \<and> audioPlayer (skillContext (snd (callSkillWithIntent_A specBuilder ''HelloIntent'' JUndefined None
         (helloState PLAYING True True))))
       = \<lparr>playback = SUSPENDED, playing = Some (''track'', 0)\<rparr>"
proof -
  have d: "\<not> audioPlayerEnabled (skillContext (helloState PLAYING False True))"
    by (simp add: helloState_def)
  have p: "audioPlayer (skillContext (helloState PLAYING False True))
       = \<lparr>playback = PLAYING, playing = Some (''track'', 0)\<rparr>"
    by (simp add: helloState_def)
  have a: "audioPlayer (skillContext (snd (callSkillWithIntent_A specBuilder ''HelloIntent'' JUndefined None
         (helloState PLAYING False True)))) = audioPlayer (skillContext (helloState PLAYING False True))"
    using C10_audio_player_frame [of specBuilder "''HelloIntent''" JUndefined None "helloState PLAYING False True"] d
    by blast
  have m: "audioPlayer (skillContext (snd (callSkillWithIntent_M specBuilder ''HelloIntent'' JUndefined
         (helloState SUSPENDED True True))))
       = \<lparr>playback = SUSPENDED, playing = Some (''track'', 0)\<rparr>"
    by (simp add: run_defs)
  have s: "audioPlayer (skillContext (snd (callSkillWithIntent_A specBuilder ''HelloIntent'' JUndefined None
         (helloState PLAYING True True))))
       = \<lparr>playback = SUSPENDED, playing = Some (''track'', 0)\<rparr>"
    by (simp add: run_defs)
  show ?thesis using d a p m s by simp
qed

section \<open>Ending the session with sessionEnded\<close>

lemma getProp_not_nullish: "\<not> nullish v \<Longrightarrow> getProp v k = Inr (propOf v k)"
  by (simp add: getProp_def)

lemma callSkill_A_then_fulfils:
  "\<not> nullish result \<Longrightarrow> fst (callSkill_A_then (Inr result) st) = Inr result"
  by (simp add: callSkill_A_then_def Let_def getProp_not_nullish)

lemma sessionEnded_A_then_ends:
  "\<not> nullish result \<Longrightarrow>
     fst (sessionEnded_A_then (Inr result) st) = Inr JUndefined
   \<and> \<not> activeSession (skillContext (snd (sessionEnded_A_then (Inr result) st)))"
  using callSkill_A_then_fulfils [of result st]
  by (cases "callSkill_A_then (Inr result) st")
     (simp add: sessionEnded_A_then_def endSession_def activeSession_def)

text \<open>
  In the abstract interactor the session is ended by a callback attached with \<open>then\<close>,
  which is skipped when the promise of \<open>callSkill\<close> rejects: when the collaborator
  rejects, and when the payload is null or undefined, because reading
  \<open>result.sessionAttributes\<close> throws. An active session then stays active.
\<close>

lemma sessionEnded_A_then_rejected:
  "sessionEnded_A_then (Inl e) st = (Inl e, st)"
  by (simp add: sessionEnded_A_then_def callSkill_A_then_def)

lemma sessionEnded_A_then_nullish:
  "nullish result \<Longrightarrow> activeSession (skillContext st) \<Longrightarrow>
     fst (sessionEnded_A_then (Inr result) st) = Inl (TypeError (''Cannot read property '' @ ''sessionAttributes''))
   \<and> activeSession (skillContext (snd (sessionEnded_A_then (Inr result) st)))"
  by (cases result)
     (simp_all add: sessionEnded_A_then_def callSkill_A_then_def shouldEnd_A_def getProp_def
        activeSession_def used_def Let_def)

lemma callSkill_M_then_inactive:
  "\<not> activeSession (skillContext st) \<Longrightarrow> callSkill_M_then (Inr result) st = (Inr JUndefined, st)"
  by (simp add: callSkill_M_then_def)

lemma sessionEnded_M_ended:
  "r \<noteq> ERROR \<or> serialisable e \<Longrightarrow> \<not> activeSession (skillContext (snd (sessionEnded_M r e st)))"
  by (subst sessionEnded_M_eq) (simp_all add: endSession_def activeSession_def)

lemma sessionEnded_M_pending:
  "r \<noteq> ERROR \<or> serialisable e \<Longrightarrow>
   fst (sessionEnded_M r e st)
     = Pending (toJSON (ensureSession (sessionEndedRequest r e) (skillContext st)) (sessionEndedRequest r e))"
  by (subst sessionEnded_M_eq) (simp_all add: callSkill_M_eq)

lemma sessionEnded_A_pending:
  "r \<noteq> ERROR \<or> serialisable e \<Longrightarrow>
   fst (sessionEnded_A r e None st)
     = Pending (toJSON (skillContext (snd (sessionEnded_A r e None st))) (sessionEndedRequest r e))"
  by (simp add: sessionEnded_A_eq callSkill_A_None_eq)

text \<open>
  Claim C3 (as amended). When the reason is not ERROR, or the error data is accepted by
  \<open>JSON.stringify\<close>, \<open>sessionEnded\<close> dispatches the session-ended request built from
  the reason and the error data. The abstract interactor leaves the session active while
  the collaborator runs; when the round trip completes with a response payload that is
  neither null nor undefined, the session is terminated whatever the payload holds, and
  the promise fulfils with undefined. SkillInteractor.ts terminates the session at once,
  before any reply; the callback that runs on the reply then finds no active session and
  changes nothing.
\<close>

theorem C3_session_ended_termination:
  "(r \<noteq> ERROR \<or> serialisable e \<longrightarrow>
       fst (sessionEnded_A r e None st)
         = Pending (toJSON (skillContext (snd (sessionEnded_A r e None st))) (sessionEndedRequest r e))
     \<and> activeSession (skillContext (snd (sessionEnded_A r e f st)))
     \<and> fst (sessionEnded_M r e st)
         = Pending (toJSON (if activeSession (skillContext st) then skillContext st
                            else newSession (skillContext st)) (sessionEndedRequest r e))
     \<and> \<not> activeSession (skillContext (snd (sessionEnded_M r e st))))
   \<and> (\<not> nullish result \<longrightarrow>
         fst (sessionEnded_A_then (Inr result) stA) = Inr JUndefined
       \<and> \<not> activeSession (skillContext (snd (sessionEnded_A_then (Inr result) stA))))
   \<and> (\<not> activeSession (skillContext stM) \<longrightarrow>
         callSkill_M_then (Inr result) stM = (Inr JUndefined, stM))"
proof -
  have d: "r \<noteq> ERROR \<or> serialisable e \<longrightarrow>
       fst (sessionEnded_A r e None st)
         = Pending (toJSON (skillContext (snd (sessionEnded_A r e None st))) (sessionEndedRequest r e))
     \<and> activeSession (skillContext (snd (sessionEnded_A r e f st)))
     \<and> fst (sessionEnded_M r e st)
         = Pending (toJSON (if activeSession (skillContext st) then skillContext st
                            else newSession (skillContext st)) (sessionEndedRequest r e))
     \<and> \<not> activeSession (skillContext (snd (sessionEnded_M r e st)))"
  proof
    assume ok: "r \<noteq> ERROR \<or> serialisable e"
    have 2: "fst (sessionEnded_M r e st)
         = Pending (toJSON (if activeSession (skillContext st) then skillContext st
                            else newSession (skillContext st)) (sessionEndedRequest r e))"
      by (simp add: sessionEnded_M_pending [OF ok] ensureSession_def requiresSession_all)
    show "fst (sessionEnded_A r e None st)
         = Pending (toJSON (skillContext (snd (sessionEnded_A r e None st))) (sessionEndedRequest r e))
     \<and> activeSession (skillContext (snd (sessionEnded_A r e f st)))
     \<and> fst (sessionEnded_M r e st)
         = Pending (toJSON (if activeSession (skillContext st) then skillContext st
                            else newSession (skillContext st)) (sessionEndedRequest r e))
     \<and> \<not> activeSession (skillContext (snd (sessionEnded_M r e st)))"
      using 2 sessionEnded_A_pending [OF ok, of st] sessionEnded_A_active [OF ok, of f st]
        sessionEnded_M_ended [OF ok, of st]
      by blast
  qed
  show ?thesis
    using d sessionEnded_A_then_ends [of result stA] callSkill_M_then_inactive [of stM result]
    by blast
qed

text \<open>
  Claim C3, an instance: an error termination whose data can be logged, and a payload
  that does not ask for the session to end.
\<close>

theorem C3_session_ended_termination_witness:
  "serialisable (JObj [(''message'', JStr ''boom'')])
   \<and> fst (sessionEnded_A ERROR (JObj [(''message'', JStr ''boom'')]) None (helloState IDLE False True))
       = Pending (toJSON (skillContext (helloState IDLE False True))
                    (SessionEndedRequest ERROR (JObj [(''message'', JStr ''boom'')])))
   \<and> activeSession (skillContext (snd (sessionEnded_A ERROR (JObj [(''message'', JStr ''boom'')]) None
         (helloState IDLE False True))))
   \<and> fst (sessionEnded_M ERROR (JObj [(''message'', JStr ''boom'')]) (helloState IDLE False True))
       = Pending (toJSON (skillContext (helloState IDLE False True))
                    (SessionEndedRequest ERROR (JObj [(''message'', JStr ''boom'')])))
   \<and> \<not> activeSession (skillContext (snd (sessionEnded_M ERROR (JObj [(''message'', JStr ''boom'')])
         (helloState IDLE False True))))
   \<and> \<not> nullish (JObj [(''response'', JObj [(''shouldEndSession'', JBool False)])])
   \<and> activeSession (skillContext (helloState IDLE False True))
   \<and> fst (sessionEnded_A_then (Inr (JObj [(''response'', JObj [(''shouldEndSession'', JBool False)])]))
          (helloState IDLE False True)) = Inr JUndefined
   \<and> \<not> activeSession (skillContext (snd (sessionEnded_A_then
          (Inr (JObj [(''response'', JObj [(''shouldEndSession'', JBool False)])])) (helloState IDLE False True))))
   \<and> \<not> activeSession (skillContext (helloState IDLE False False))
   \<and> callSkill_M_then (Inr (JObj [(''response'', JObj [(''shouldEndSession'', JBool False)])]))
          (helloState IDLE False False) = (Inr JUndefined, helloState IDLE False False)"
proof -
  let ?e = "JObj [(''message'', JStr ''boom'')]"
  let ?st = "helloState IDLE False True"
  have s: "serialisable ?e" by simp
  have n: "\<not> nullish (JObj [(''response'', JObj [(''shouldEndSession'', JBool False)])])"
    by simp
  have a: "activeSession (skillContext ?st)"
    by (simp add: helloState_def activeSession_def)
  have i: "\<not> activeSession (skillContext (helloState IDLE False False))"
    by (simp add: helloState_def activeSession_def)
  have c: "skillContext (snd (sessionEnded_A ERROR ?e None ?st)) = skillContext ?st"
    by (simp add: run_defs)
  have q: "sessionEndedRequest ERROR ?e = SessionEndedRequest ERROR ?e"
    by (simp add: sessionEndedRequest_def)
  note w = C3_session_ended_termination [where r = ERROR and e = ?e and st = ?st and f = None
      and result = "JObj [(''response'', JObj [(''shouldEndSession'', JBool False)])]"
      and stA = ?st and stM = "helloState IDLE False False"]
  have 1: "fst (sessionEnded_A ERROR ?e None ?st) = Pending (toJSON (skillContext ?st) (SessionEndedRequest ERROR ?e))"
    using w s unfolding c q by blast
  have 2: "activeSession (skillContext (snd (sessionEnded_A ERROR ?e None ?st)))"
    using w s by blast
  have 3: "fst (sessionEnded_M ERROR ?e ?st) = Pending (toJSON (skillContext ?st) (SessionEndedRequest ERROR ?e))"
    using w s a unfolding q by simp
  have 4: "\<not> activeSession (skillContext (snd (sessionEnded_M ERROR ?e ?st)))"
    using w s by blast
  have 5: "fst (sessionEnded_A_then (Inr (JObj [(''response'', JObj [(''shouldEndSession'', JBool False)])])) ?st)
             = Inr JUndefined
     \<and> \<not> activeSession (skillContext (snd (sessionEnded_A_then
          (Inr (JObj [(''response'', JObj [(''shouldEndSession'', JBool False)])])) ?st)))"
    using w n by blast
  have 6: "callSkill_M_then (Inr (JObj [(''response'', JObj [(''shouldEndSession'', JBool False)])]))
          (helloState IDLE False False) = (Inr JUndefined, helloState IDLE False False)"
    using w i by blast
  show ?thesis using s n a i 1 2 3 4 5 6 by blast
qed

text \<open>
  Claim C3 as stated fails in SkillInteractor.ts: the request is still pending and the
  session, active before the call, is already terminated.
\<close>

theorem C3_session_ended_before_reply_counterexample:
  "fst (sessionEnded_M USER_INITIATED JUndefined (helloState IDLE False True))
     = Pending (toJSON (skillContext (helloState IDLE False True)) (SessionEndedRequest USER_INITIATED JUndefined))
   \<and> activeSession (skillContext (helloState IDLE False True))
   \<and> \<not> activeSession (skillContext (snd (sessionEnded_M USER_INITIATED JUndefined (helloState IDLE False True))))"
  by (simp add: run_defs)

section \<open>The fallback utterance\<close>

lemma warnings_append: "warnings (xs @ ys) = warnings xs @ warnings ys"
  by (induction xs rule: warnings.induct) simp_all

lemma callSkill_A_warnings:
  "warnings (console (snd (callSkill_A r f st))) = warnings (console st)"
  by (simp add: callSkill_A_def Let_def warnings_append split: sum.splits option.splits)

lemma callSkill_M_warnings:
  "warnings (console (snd (callSkill_M r st))) = warnings (console st)"
  by (simp add: callSkill_M_eq warnings_append)

lemma callSkillWithIntent_A_warnings:
  "warnings (console (snd (callSkillWithIntent_A B n s f st))) = warnings (console st)"
  by (simp add: callSkillWithIntent_A_def Let_def callSkill_A_warnings split: sum.splits)

lemma callSkillWithIntent_M_warnings:
  "warnings (console (snd (callSkillWithIntent_M B n s st))) = warnings (console st)"
  by (simp add: callSkillWithIntent_M_def Let_def callSkill_M_warnings split: sum.splits)

text \<open>The keys of an object, and the entries the slot loop runs over.\<close>

lemma set_ownKeys: "set (ownKeys kvs) = fst ` set kvs"
  by (auto simp: ownKeys_def Let_def)

lemma distinct_ownKeys: "distinct (ownKeys kvs)"
  by (auto simp: ownKeys_def Let_def)

lemma distinct_ownEntries: "distinct (map fst (ownEntries (JObj kvs)))"
  by (simp add: distinct_ownKeys comp_def)

lemma map_of_ownEntries: "map_of (ownEntries (JObj kvs)) k = map_of kvs k"
proof (cases "k \<in> fst ` set kvs")
  case True
  then obtain v where v: "map_of kvs k = Some v"
    by (metis map_of_eq_None_iff not_Some_eq)
  have "map_of (ownEntries (JObj kvs)) k = Some (propOf (JObj kvs) k)"
    using True by (simp add: map_of_map_restrict set_ownKeys)
  then show ?thesis by (simp add: v)
next
  case False
  then have "map_of kvs k = None" by (simp add: map_of_eq_None_iff)
  moreover have "map_of (ownEntries (JObj kvs)) k = None"
    using False by (simp add: map_of_map_restrict set_ownKeys)
  ultimately show ?thesis by simp
qed

text \<open>The builder of the specification adds every slot whose value is defined.\<close>

lemma withSlots_specBuilder_eq:
  "withSlots specBuilder (IntentRequest n S) es
     = Inr (IntentRequest n
         (foldl (\<lambda>S kv. if snd kv = JUndefined then S else AList.update (fst kv) (snd kv) S) S es))"
  by (induction es arbitrary: S) (auto simp: specBuilder_def)

lemma propOf_added_slots:
  "distinct (map fst es) \<Longrightarrow>
   propOf (JObj (foldl (\<lambda>S kv. if snd kv = JUndefined then S else AList.update (fst kv) (snd kv) S) S es)) k
     = (case map_of es k of
          None \<Rightarrow> propOf (JObj S) k
        | Some v \<Rightarrow> if v = JUndefined then propOf (JObj S) k else v)"
proof (induction es arbitrary: S)
  case Nil
  then show ?case by simp
next
  case (Cons kv es)
  obtain k' v' where kv: "kv = (k', v')" by (cases kv)
  from Cons.prems have d: "distinct (map fst es)" and nk: "k' \<notin> fst ` set es"
    by (auto simp: kv)
  have none: "map_of es k' = None" using nk by (simp add: map_of_eq_None_iff)
  show ?case
    using Cons.IH [OF d] none
    by (cases "k = k'") (auto simp: kv update_conv' split: option.splits)
qed

lemma intentRequest_specBuilder: "intentRequest specBuilder c n = Inr (IntentRequest n [])"
  by (simp add: specBuilder_def)

lemma sent_slots:
  "propOf (JObj (foldl (\<lambda>S kv. if snd kv = JUndefined then S else AList.update (fst kv) (snd kv) S) []
                   (ownEntries (JObj kvs)))) k
     = propOf (JObj kvs) k"
proof -
  have "propOf (JObj (foldl (\<lambda>S kv. if snd kv = JUndefined then S else AList.update (fst kv) (snd kv) S) []
                   (ownEntries (JObj kvs)))) k
      = (case map_of (ownEntries (JObj kvs)) k of
           None \<Rightarrow> propOf (JObj []) k
         | Some v \<Rightarrow> if v = JUndefined then propOf (JObj []) k else v)"
    by (rule propOf_added_slots [OF distinct_ownEntries])
  also have "\<dots> = propOf (JObj kvs) k"
    by (simp only: map_of_ownEntries) (simp split: option.splits)
  finally show ?thesis .
qed

lemma callSkillWithIntent_A_specBuilder:
  "fst (callSkillWithIntent_A specBuilder n (JObj kvs) None st)
     = Pending (toJSON (skillContext (snd (callSkillWithIntent_A specBuilder n (JObj kvs) None st)))
         (IntentRequest n
            (foldl (\<lambda>S kv. if snd kv = JUndefined then S else AList.update (fst kv) (snd kv) S) []
               (ownEntries (JObj kvs)))))"
  by (simp add: callSkillWithIntent_A_def Let_def intentRequest_specBuilder withSlots_specBuilder_eq
      callSkill_A_None_eq)

lemma callSkillWithIntent_M_specBuilder:
  "fst (callSkillWithIntent_M specBuilder n (JObj kvs) st)
     = Pending (toJSON (skillContext (snd (callSkillWithIntent_M specBuilder n (JObj kvs) st)))
         (IntentRequest n
            (foldl (\<lambda>S kv. if snd kv = JUndefined then S else AList.update (fst kv) (snd kv) S) []
               (ownEntries (JObj kvs)))))"
  by (simp add: callSkillWithIntent_M_def Let_def intentRequest_specBuilder withSlots_specBuilder_eq
      callSkill_M_eq)

lemma intent_envelope:
  "propOf (propOf (toJSON c (IntentRequest n S)) ''request'') ''type'' = JStr ''IntentRequest''
   \<and> propOf (propOf (propOf (toJSON c (IntentRequest n S)) ''request'') ''intent'') ''name'' = JStr n
   \<and> propOf (propOf (propOf (toJSON c (IntentRequest n S)) ''request'') ''intent'') ''slots'' = JObj S"
  by (simp add: toJSON_def requestBlock_def)

lemma spoken_A_unmatched:
  "\<not> utt_matched (newUtterance (interactionModel (skillContext st)) t) \<Longrightarrow>
   spoken_A B t f st
     = callSkillWithIntent_A B
         (utt_intent (newUtterance (interactionModel (skillContext st))
                        (defaultUtterance (interactionModel (skillContext st)))))
         (JObj (utt_toJSON (newUtterance (interactionModel (skillContext st))
                        (defaultUtterance (interactionModel (skillContext st))))))
         f
         (say (ConsoleWarn (''No intentName matches utterance: ''
                 @ utt_toString (newUtterance (interactionModel (skillContext st))
                                   (defaultUtterance (interactionModel (skillContext st))))
                 @ ''. Using fallback utterance: ''
                 @ defaultUtterance (interactionModel (skillContext st)))) st)"
  by (simp add: spoken_A_def Let_def)

lemma spoken_M_unmatched:
  "\<not> utt_matched (newUtterance (interactionModel (skillContext st)) t) \<Longrightarrow>
   spoken_M B t st
     = callSkillWithIntent_M B
         (utt_intent (newUtterance (interactionModel (skillContext st))
                        (defaultUtterance (interactionModel (skillContext st)))))
         (JObj (utt_toJSON (newUtterance (interactionModel (skillContext st))
                        (defaultUtterance (interactionModel (skillContext st))))))
         (say (ConsoleWarn (''No intentName matches utterance: ''
                 @ utt_toString (newUtterance (interactionModel (skillContext st))
                                   (defaultUtterance (interactionModel (skillContext st))))
                 @ ''. Using fallback utterance: ''
                 @ defaultUtterance (interactionModel (skillContext st)))) st)"
  by (simp add: spoken_M_def Let_def)

text \<open>
  Claim C4. When the text matches no utterance, \<open>spoken\<close> of either interactor writes
  one warning and then makes the intent call for the utterance built from the model's
  default phrase. With the builder of the specification and no filter the call is not an
  error: it reaches the collaborator, and the envelope dispatched is the serialised
  intent request whose intent name is the one the default phrase resolves to and whose
  slot map agrees on every key with the slot values of that utterance. Exactly one
  warning is added to the console.
\<close>

theorem C4_fallback_on_match_failure:
  assumes "\<not> utt_matched (newUtterance (interactionModel (skillContext st)) t)"
  shows
  "spoken_A B t f st
     = callSkillWithIntent_A B
         (utt_intent (newUtterance (interactionModel (skillContext st))
                        (defaultUtterance (interactionModel (skillContext st)))))
         (JObj (utt_toJSON (newUtterance (interactionModel (skillContext st))
                        (defaultUtterance (interactionModel (skillContext st))))))
         f
         (say (ConsoleWarn (''No intentName matches utterance: ''
                 @ utt_toString (newUtterance (interactionModel (skillContext st))
                                   (defaultUtterance (interactionModel (skillContext st))))
                 @ ''. Using fallback utterance: ''
                 @ defaultUtterance (interactionModel (skillContext st)))) st)
   \<and> spoken_M B t st
     = callSkillWithIntent_M B
         (utt_intent (newUtterance (interactionModel (skillContext st))
                        (defaultUtterance (interactionModel (skillContext st)))))
         (JObj (utt_toJSON (newUtterance (interactionModel (skillContext st))
                        (defaultUtterance (interactionModel (skillContext st))))))
         (say (ConsoleWarn (''No intentName matches utterance: ''
                 @ utt_toString (newUtterance (interactionModel (skillContext st))
                                   (defaultUtterance (interactionModel (skillContext st))))
                 @ ''. Using fallback utterance: ''
                 @ defaultUtterance (interactionModel (skillContext st)))) st)
   \<and> length (warnings (console (snd (spoken_A B t f st)))) = Suc (length (warnings (console st)))
   \<and> length (warnings (console (snd (spoken_M B t st)))) = Suc (length (warnings (console st)))
   \<and> (\<exists>S. (\<forall>k. propOf (JObj S) k = propOf (JObj (utt_toJSON (newUtterance (interactionModel (skillContext st))
                        (defaultUtterance (interactionModel (skillContext st)))))) k)
          \<and> fst (spoken_A specBuilder t None st)
              = Pending (toJSON (skillContext (snd (spoken_A specBuilder t None st)))
                           (IntentRequest (utt_intent (newUtterance (interactionModel (skillContext st))
                        (defaultUtterance (interactionModel (skillContext st))))) S))
          \<and> fst (spoken_M specBuilder t st)
              = Pending (toJSON (skillContext (snd (spoken_M specBuilder t st)))
                           (IntentRequest (utt_intent (newUtterance (interactionModel (skillContext st))
                        (defaultUtterance (interactionModel (skillContext st))))) S)))
   \<and> (fst (spoken_A specBuilder t None st) = Pending envA \<longrightarrow>
          propOf (propOf envA ''request'') ''type'' = JStr ''IntentRequest''
        \<and> propOf (propOf (propOf envA ''request'') ''intent'') ''name''
            = JStr (utt_intent (newUtterance (interactionModel (skillContext st))
                        (defaultUtterance (interactionModel (skillContext st)))))
        \<and> (\<forall>k. propOf (propOf (propOf (propOf envA ''request'') ''intent'') ''slots'') k
                  = propOf (JObj (utt_toJSON (newUtterance (interactionModel (skillContext st))
                        (defaultUtterance (interactionModel (skillContext st)))))) k))
   \<and> (fst (spoken_M specBuilder t st) = Pending envM \<longrightarrow>
          propOf (propOf envM ''request'') ''type'' = JStr ''IntentRequest''
        \<and> propOf (propOf (propOf envM ''request'') ''intent'') ''name''
            = JStr (utt_intent (newUtterance (interactionModel (skillContext st))
                        (defaultUtterance (interactionModel (skillContext st)))))
        \<and> (\<forall>k. propOf (propOf (propOf (propOf envM ''request'') ''intent'') ''slots'') k
                  = propOf (JObj (utt_toJSON (newUtterance (interactionModel (skillContext st))
                        (defaultUtterance (interactionModel (skillContext st)))))) k))"
proof -
  let ?u = "(newUtterance (interactionModel (skillContext st))
                        (defaultUtterance (interactionModel (skillContext st))))"
  let ?S = "foldl (\<lambda>S kv. if snd kv = JUndefined then S else AList.update (fst kv) (snd kv) S) []
              (ownEntries (JObj (utt_toJSON ?u)))"
  note a = spoken_A_unmatched [OF assms]
  note m = spoken_M_unmatched [OF assms]
  have wa: "length (warnings (console (snd (spoken_A B t f st)))) = Suc (length (warnings (console st)))"
    by (simp add: a callSkillWithIntent_A_warnings warnings_append)
  have wm: "length (warnings (console (snd (spoken_M B t st)))) = Suc (length (warnings (console st)))"
    by (simp add: m callSkillWithIntent_M_warnings warnings_append)
  have sl: "\<forall>k. propOf (JObj ?S) k = propOf (JObj (utt_toJSON ?u)) k"
    by (intro allI) (rule sent_slots)
  have pa: "fst (spoken_A specBuilder t None st)
              = Pending (toJSON (skillContext (snd (spoken_A specBuilder t None st)))
                           (IntentRequest (utt_intent ?u) ?S))"
    unfolding a by (rule callSkillWithIntent_A_specBuilder)
  have pm: "fst (spoken_M specBuilder t st)
              = Pending (toJSON (skillContext (snd (spoken_M specBuilder t st)))
                           (IntentRequest (utt_intent ?u) ?S))"
    unfolding m by (rule callSkillWithIntent_M_specBuilder)
  have ex: "\<exists>S. (\<forall>k. propOf (JObj S) k = propOf (JObj (utt_toJSON ?u)) k)
          \<and> fst (spoken_A specBuilder t None st)
              = Pending (toJSON (skillContext (snd (spoken_A specBuilder t None st)))
                           (IntentRequest (utt_intent ?u) S))
          \<and> fst (spoken_M specBuilder t st)
              = Pending (toJSON (skillContext (snd (spoken_M specBuilder t st)))
                           (IntentRequest (utt_intent ?u) S))"
    using sl pa pm by blast
  have ea: "fst (spoken_A specBuilder t None st) = Pending envA \<longrightarrow>
          propOf (propOf envA ''request'') ''type'' = JStr ''IntentRequest''
        \<and> propOf (propOf (propOf envA ''request'') ''intent'') ''name'' = JStr (utt_intent ?u)
        \<and> (\<forall>k. propOf (propOf (propOf (propOf envA ''request'') ''intent'') ''slots'') k
                  = propOf (JObj (utt_toJSON ?u)) k)"
  proof
    assume "fst (spoken_A specBuilder t None st) = Pending envA"
    with pa have e: "envA = toJSON (skillContext (snd (spoken_A specBuilder t None st)))
                           (IntentRequest (utt_intent ?u) ?S)"
      by simp
    show "propOf (propOf envA ''request'') ''type'' = JStr ''IntentRequest''
        \<and> propOf (propOf (propOf envA ''request'') ''intent'') ''name'' = JStr (utt_intent ?u)
        \<and> (\<forall>k. propOf (propOf (propOf (propOf envA ''request'') ''intent'') ''slots'') k
                  = propOf (JObj (utt_toJSON ?u)) k)"
      unfolding e using sl by (simp only: intent_envelope) simp
  qed
  have em: "fst (spoken_M specBuilder t st) = Pending envM \<longrightarrow>
          propOf (propOf envM ''request'') ''type'' = JStr ''IntentRequest''
        \<and> propOf (propOf (propOf envM ''request'') ''intent'') ''name'' = JStr (utt_intent ?u)
        \<and> (\<forall>k. propOf (propOf (propOf (propOf envM ''request'') ''intent'') ''slots'') k
                  = propOf (JObj (utt_toJSON ?u)) k)"
  proof
    assume "fst (spoken_M specBuilder t st) = Pending envM"
    with pm have e: "envM = toJSON (skillContext (snd (spoken_M specBuilder t st)))
                           (IntentRequest (utt_intent ?u) ?S)"
      by simp
    show "propOf (propOf envM ''request'') ''type'' = JStr ''IntentRequest''
        \<and> propOf (propOf (propOf envM ''request'') ''intent'') ''name'' = JStr (utt_intent ?u)
        \<and> (\<forall>k. propOf (propOf (propOf (propOf envM ''request'') ''intent'') ''slots'') k
                  = propOf (JObj (utt_toJSON ?u)) k)"
      unfolding e using sl by (simp only: intent_envelope) simp
  qed
  show ?thesis using a m wa wm ex ea em by blast
qed

text \<open>
  Claim C4, an instance: the phrase \<open>xyzzy\<close> on the skill whose default phrase carries
  the slot \<open>city\<close>.
\<close>

theorem C4_fallback_on_match_failure_witness:
  "\<not> utt_matched (newUtterance (interactionModel (skillContext weatherState)) ''xyzzy'')
   \<and> fst (spoken_A specBuilder ''xyzzy'' None weatherState)
       = Pending (toJSON (skillContext weatherState)
                    (IntentRequest ''WeatherIntent'' [(''city'', JStr ''paris'')]))
   \<and> fst (spoken_M specBuilder ''xyzzy'' weatherState)
       = Pending (toJSON (skillContext weatherState)
                    (IntentRequest ''WeatherIntent'' [(''city'', JStr ''paris'')]))
   \<and> propOf (propOf (propOf (toJSON (skillContext weatherState)
         (IntentRequest ''WeatherIntent'' [(''city'', JStr ''paris'')])) ''request'') ''intent'') ''name''
       = JStr ''WeatherIntent''
   \<and> propOf (propOf (propOf (propOf (toJSON (skillContext weatherState)
         (IntentRequest ''WeatherIntent'' [(''city'', JStr ''paris'')])) ''request'') ''intent'') ''slots'') ''city''
       = JStr ''paris''
   \<and> warnings (console (snd (spoken_A specBuilder ''xyzzy'' None weatherState)))
       = [''No intentName matches utterance: [object Object]. Using fallback utterance: weather in paris'']
   \<and> length (warnings (console (snd (spoken_M specBuilder ''xyzzy'' weatherState)))) = 1"
proof -
  let ?env = "toJSON (skillContext weatherState) (IntentRequest ''WeatherIntent'' [(''city'', JStr ''paris'')])"
  have u: "\<not> utt_matched (newUtterance (interactionModel (skillContext weatherState)) ''xyzzy'')"
    by (simp add: weatherState_def weatherModel_def newInteractor_def newSession_def)
  have c: "console weatherState = []"
    by (simp add: weatherState_def newInteractor_def)
  have d: "utt_intent (newUtterance (interactionModel (skillContext weatherState))
             (defaultUtterance (interactionModel (skillContext weatherState)))) = ''WeatherIntent''"
    by (simp add: weatherState_def weatherModel_def newInteractor_def newSession_def)
  have j: "propOf (JObj (utt_toJSON (newUtterance (interactionModel (skillContext weatherState))
             (defaultUtterance (interactionModel (skillContext weatherState)))))) ''city'' = JStr ''paris''"
    by (simp add: weatherState_def weatherModel_def newInteractor_def newSession_def)
  have pa: "fst (spoken_A specBuilder ''xyzzy'' None weatherState) = Pending ?env"
    by (simp add: run_defs weatherState_def weatherModel_def newInteractor_def)
  have pm: "fst (spoken_M specBuilder ''xyzzy'' weatherState) = Pending ?env"
    by (simp add: run_defs weatherState_def weatherModel_def newInteractor_def)
  have w: "warnings (console (snd (spoken_A specBuilder ''xyzzy'' None weatherState)))
       = [''No intentName matches utterance: [object Object]. Using fallback utterance: weather in paris'']"
    by (simp add: run_defs weatherState_def weatherModel_def newInteractor_def)
  note inst = C4_fallback_on_match_failure [OF u, where B = specBuilder and f = None
      and envA = ?env and envM = ?env]
  have n: "propOf (propOf (propOf ?env ''request'') ''intent'') ''name'' = JStr ''WeatherIntent''"
    using inst pa d by simp
  have s: "propOf (propOf (propOf (propOf ?env ''request'') ''intent'') ''slots'') ''city'' = JStr ''paris''"
    using inst pa j by simp
  have "length (warnings (console (snd (spoken_M specBuilder ''xyzzy'' weatherState))))
          = Suc (length (warnings (console weatherState)))"
    using inst by blast
  then have l: "length (warnings (console (snd (spoken_M specBuilder ''xyzzy'' weatherState)))) = 1"
    by (simp add: c)
  show ?thesis using u pa pm n s w l by blast
qed

text \<open>
  Claim C9. The warning written on a failed match is built from the fallback utterance
  alone: the string the fallback utterance object converts to, and the default phrase.
  The text the user spoke does not occur in the expression, so the warning is the same
  for every unmatched text.
\<close>

theorem C9_warning_names_fallback_only:
  assumes "\<not> utt_matched (newUtterance (interactionModel (skillContext st)) t)"
  shows
  "warnings (console (snd (spoken_A B t f st)))
     = warnings (console st)
       @ [''No intentName matches utterance: ''
          @ utt_toString (newUtterance (interactionModel (skillContext st))
                            (defaultUtterance (interactionModel (skillContext st))))
          @ ''. Using fallback utterance: ''
          @ defaultUtterance (interactionModel (skillContext st))]
   \<and> warnings (console (snd (spoken_M B t st)))
     = warnings (console st)
       @ [''No intentName matches utterance: ''
          @ utt_toString (newUtterance (interactionModel (skillContext st))
                            (defaultUtterance (interactionModel (skillContext st))))
          @ ''. Using fallback utterance: ''
          @ defaultUtterance (interactionModel (skillContext st))]"
  by (simp add: spoken_A_unmatched [OF assms] spoken_M_unmatched [OF assms]
      callSkillWithIntent_A_warnings callSkillWithIntent_M_warnings warnings_append)

text \<open>Claim C9, an instance: two different unmatched phrases give the same warning.\<close>

theorem C9_warning_names_fallback_only_witness:
  "\<not> utt_matched (newUtterance (interactionModel (skillContext (helloState IDLE False True))) ''xyzzy'')
   \<and> \<not> utt_matched (newUtterance (interactionModel (skillContext (helloState IDLE False True))) ''open the pod bay doors'')
   \<and> warnings (console (snd (spoken_A specBuilder ''xyzzy'' None (helloState IDLE False True))))
       = [''No intentName matches utterance: [object Object]. Using fallback utterance: help'']
   \<and> warnings (console (snd (spoken_M specBuilder ''open the pod bay doors'' (helloState IDLE False True))))
       = [''No intentName matches utterance: [object Object]. Using fallback utterance: help'']"
proof -
  have u: "\<not> utt_matched (newUtterance (interactionModel (skillContext (helloState IDLE False True))) ''xyzzy'')"
    by (simp add: helloState_def helloModel_def)
  have v: "\<not> utt_matched (newUtterance (interactionModel (skillContext (helloState IDLE False True))) ''open the pod bay doors'')"
    by (simp add: helloState_def helloModel_def)
  have c: "warnings (console (helloState IDLE False True)) = []"
    by (simp add: helloState_def)
  have d: "''No intentName matches utterance: ''
          @ utt_toString (newUtterance (interactionModel (skillContext (helloState IDLE False True)))
                            (defaultUtterance (interactionModel (skillContext (helloState IDLE False True)))))
          @ ''. Using fallback utterance: ''
          @ defaultUtterance (interactionModel (skillContext (helloState IDLE False True)))
         = ''No intentName matches utterance: [object Object]. Using fallback utterance: help''"
    by (simp add: helloState_def helloModel_def)
  from C9_warning_names_fallback_only [OF u, of specBuilder None]
  have a: "warnings (console (snd (spoken_A specBuilder ''xyzzy'' None (helloState IDLE False True))))
       = [''No intentName matches utterance: [object Object]. Using fallback utterance: help'']"
    unfolding c d by simp
  from C9_warning_names_fallback_only [OF v, of specBuilder None]
  have m: "warnings (console (snd (spoken_M specBuilder ''open the pod bay doors'' (helloState IDLE False True))))
       = [''No intentName matches utterance: [object Object]. Using fallback utterance: help'']"
    unfolding c d by simp
  show ?thesis using u v a m by blast
qed

section \<open>Construction errors in intended\<close>

lemma callSkill_A_not_thrown: "fst (callSkill_A r f st) \<noteq> Thrown e"
  by (simp add: callSkill_A_def Let_def split: sum.splits option.splits)

lemma intended_A_not_thrown: "fst (intended_A B n s f st) \<noteq> Thrown e"
  by (cases "callSkillWithIntent_A B n s f st")
     (simp add: intended_A_def split: promise.splits)

lemma intended_A_rejects:
  "fst (callSkillWithIntent_A B n s f st) = Thrown e \<Longrightarrow>
   intended_A B n s f st = (Rejected e, snd (callSkillWithIntent_A B n s f st))"
  by (cases "callSkillWithIntent_A B n s f st") (simp add: intended_A_def)

lemma intended_A_passes:
  "fst (callSkillWithIntent_A B n s f st) = Rejected e \<or> fst (callSkillWithIntent_A B n s f st) = Pending env \<Longrightarrow>
   intended_A B n s f st = callSkillWithIntent_A B n s f st"
  by (cases "callSkillWithIntent_A B n s f st") (auto simp: intended_A_def)

text \<open>
  Claim C5 (as amended). In the abstract interactor \<open>intended\<close> never throws: an error
  thrown while the intent request is built becomes the rejection of the promise it
  returns, and otherwise it returns what \<open>callSkillWithIntent\<close> returns. In
  SkillInteractor.ts \<open>intended\<close> is \<open>callSkillWithIntent\<close> itself, so an error thrown
  while the request is built is thrown to the caller.
\<close>

theorem C5_intended_construction_errors:
  "fst (intended_A B n s f st) \<noteq> Thrown e'
   \<and> (fst (callSkillWithIntent_A B n s f st) = Thrown e \<longrightarrow>
         intended_A B n s f st = (Rejected e, snd (callSkillWithIntent_A B n s f st)))
   \<and> (fst (callSkillWithIntent_A B n s f st) = Rejected e \<longrightarrow>
         intended_A B n s f st = callSkillWithIntent_A B n s f st)
   \<and> (fst (callSkillWithIntent_A B n s f st) = Pending env \<longrightarrow>
         intended_A B n s f st = callSkillWithIntent_A B n s f st)
   \<and> intended_M B n s st = callSkillWithIntent_M B n s st
   \<and> (fst (callSkillWithIntent_M B n s st) = Thrown e \<longrightarrow> fst (intended_M B n s st) = Thrown e)"
  using intended_A_not_thrown [of B n s f st e'] intended_A_rejects [of B n s f st e]
    intended_A_passes [of B n s f st e env]
  by (simp add: intended_M_def)

text \<open>
  Claim C5, instances: an undeclared intent with a validating builder, a filter that
  makes \<open>callSkill\<close> fail, and a call that reaches the collaborator.
\<close>

theorem C5_intended_construction_errors_witness:
  "fst (callSkillWithIntent_A (validatingBuilder [''HelloIntent'']) ''Nope'' JUndefined None (helloState IDLE False True))
     = Thrown (Raised (JStr ''Interaction model has no intent named: Nope''))
   \<and> intended_A (validatingBuilder [''HelloIntent'']) ''Nope'' JUndefined None (helloState IDLE False True)
     = (Rejected (Raised (JStr ''Interaction model has no intent named: Nope'')), helloState IDLE False True)
   \<and> fst (callSkillWithIntent_A (validatingBuilder [''HelloIntent'']) ''HelloIntent'' JUndefined (Some dropRequestFilter)
          (helloState IDLE False True))
     = Rejected (TypeError ''Cannot read property type'')
   \<and> fst (intended_A (validatingBuilder [''HelloIntent'']) ''HelloIntent'' JUndefined (Some dropRequestFilter)
          (helloState IDLE False True))
     = Rejected (TypeError ''Cannot read property type'')
   \<and> fst (callSkillWithIntent_A (validatingBuilder [''HelloIntent'']) ''HelloIntent'' JUndefined None
          (helloState IDLE False True))
     = Pending (toJSON (skillContext (helloState IDLE False True)) (IntentRequest ''HelloIntent'' []))
   \<and> fst (intended_A (validatingBuilder [''HelloIntent'']) ''HelloIntent'' JUndefined None
          (helloState IDLE False True))
     = Pending (toJSON (skillContext (helloState IDLE False True)) (IntentRequest ''HelloIntent'' []))
   \<and> fst (callSkillWithIntent_M (validatingBuilder [''HelloIntent'']) ''Nope'' JUndefined (helloState IDLE False True))
     = Thrown (Raised (JStr ''Interaction model has no intent named: Nope''))"
proof -
  let ?B = "validatingBuilder [''HelloIntent'']"
  let ?st = "helloState IDLE False True"
  let ?e = "Raised (JStr ''Interaction model has no intent named: Nope'')"
  have t: "fst (callSkillWithIntent_A ?B ''Nope'' JUndefined None ?st) = Thrown ?e"
    by (simp add: run_defs)
  have s: "snd (callSkillWithIntent_A ?B ''Nope'' JUndefined None ?st) = ?st"
    by (simp add: run_defs)
  have r: "fst (callSkillWithIntent_A ?B ''HelloIntent'' JUndefined (Some dropRequestFilter) ?st)
             = Rejected (TypeError ''Cannot read property type'')"
    by (simp add: run_defs dropRequestFilter_def)
  have p: "fst (callSkillWithIntent_A ?B ''HelloIntent'' JUndefined None ?st)
             = Pending (toJSON (skillContext ?st) (IntentRequest ''HelloIntent'' []))"
    by (simp add: run_defs)
  have m: "fst (callSkillWithIntent_M ?B ''Nope'' JUndefined ?st) = Thrown ?e"
    by (simp add: run_defs)
  from C5_intended_construction_errors [of ?B "''Nope''" JUndefined None ?st _ ?e] t s
  have 1: "intended_A ?B ''Nope'' JUndefined None ?st = (Rejected ?e, ?st)" by simp
  from C5_intended_construction_errors [of ?B "''HelloIntent''" JUndefined "Some dropRequestFilter" ?st _
      "TypeError ''Cannot read property type''"] r
  have 2: "fst (intended_A ?B ''HelloIntent'' JUndefined (Some dropRequestFilter) ?st)
             = Rejected (TypeError ''Cannot read property type'')" by simp
  from C5_intended_construction_errors [of ?B "''HelloIntent''" JUndefined None ?st _ _
      "toJSON (skillContext ?st) (IntentRequest ''HelloIntent'' [])"] p
  have 3: "fst (intended_A ?B ''HelloIntent'' JUndefined None ?st)
             = Pending (toJSON (skillContext ?st) (IntentRequest ''HelloIntent'' []))" by simp
  show ?thesis using t r p m 1 2 3 by blast
qed

text \<open>
  Claim C5 as stated fails in SkillInteractor.ts: the error raised by the builder leaves
  \<open>intended\<close> as an exception, not as a rejected promise.
\<close>

theorem C5_intended_throws_counterexample:
  "fst (intended_M (validatingBuilder [''HelloIntent'']) ''Nope'' JUndefined (helloState IDLE False True))
     = Thrown (Raised (JStr ''Interaction model has no intent named: Nope''))"
  by (simp add: run_defs)

section \<open>Session update after a round trip\<close>

lemma isNew_updateAttributes: "isNew (updateAttributes s a) = isNew s"
  by (cases a) simp_all

lemma isActive_updateAttributes: "isActive (updateAttributes s a) = isActive s"
  by (cases a) simp_all

lemma callSkill_A_then_active:
  "\<not> nullish result \<Longrightarrow> activeSession (skillContext st) \<Longrightarrow>
   callSkill_A_then (Inr result) st
     = (Inr result,
        st\<lparr>skillContext :=
             (if shouldEnd_A result
              then endSession ((skillContext st)\<lparr>session := used (session (skillContext st))\<rparr>)
              else (skillContext st)\<lparr>session :=
                     updateAttributes (used (session (skillContext st))) (propOf result ''sessionAttributes'')\<rparr>)\<rparr>)"
  by (simp add: callSkill_A_then_def Let_def getProp_not_nullish)

lemma callSkill_M_then_active:
  "\<not> nullish result \<Longrightarrow> activeSession (skillContext st) \<Longrightarrow>
   callSkill_M_then (Inr result) st
     = (Inr JUndefined,
        st\<lparr>skillContext :=
             (if shouldEnd_M result
              then endSession ((skillContext st)\<lparr>session := used (session (skillContext st))\<rparr>)
              else (skillContext st)\<lparr>session :=
                     updateAttributes (used (session (skillContext st))) (propOf result ''sessionAttributes'')\<rparr>)\<rparr>)"
  by (simp add: callSkill_M_then_def Let_def getProp_not_nullish)

lemma callSkill_A_then_inactive:
  "\<not> activeSession (skillContext st) \<Longrightarrow> callSkill_A_then (Inr result) st = (Inr result, st)"
  by (simp add: callSkill_A_then_def)

lemma callSkill_A_then_used:
  "activeSession (skillContext st) \<Longrightarrow>
   \<not> isNew (session (skillContext (snd (callSkill_A_then (Inr result) st))))"
  by (simp add: callSkill_A_then_def Let_def used_def endSession_def isNew_updateAttributes
      split: sum.splits)

lemma callSkill_M_then_used:
  "activeSession (skillContext st) \<Longrightarrow>
   \<not> isNew (session (skillContext (snd (callSkill_M_then (Inr result) st))))"
  by (simp add: callSkill_M_then_def Let_def used_def endSession_def isNew_updateAttributes
      split: sum.splits)

lemma activeSession_after_A:
  "\<not> nullish result \<Longrightarrow> activeSession (skillContext st) \<Longrightarrow>
   activeSession (skillContext (snd (callSkill_A_then (Inr result) st))) = (\<not> shouldEnd_A result)"
  by (simp add: callSkill_A_then_active activeSession_def endSession_def used_def
      isActive_updateAttributes)

lemma activeSession_after_M:
  "\<not> nullish result \<Longrightarrow> activeSession (skillContext st) \<Longrightarrow>
   activeSession (skillContext (snd (callSkill_M_then (Inr result) st))) = (\<not> shouldEnd_M result)"
  by (simp add: callSkill_M_then_active activeSession_def endSession_def used_def
      isActive_updateAttributes)

text \<open>
  Claim C6 (as amended). When the result arrives and a session is active, the session is
  marked used. For a payload that is neither null nor undefined the session is then
  terminated exactly when the payload is truthy and its end-of-session flag is truthy,
  where the abstract interactor reads the flag from the payload's \<open>response\<close> object
  and SkillInteractor.ts reads it from the payload itself; otherwise the attributes are
  updated from the payload's \<open>sessionAttributes\<close>. When no session is active the state
  is left as it is.
\<close>

theorem C6_update_after_round_trip:
  "(activeSession (skillContext st) \<longrightarrow>
       \<not> isNew (session (skillContext (snd (callSkill_A_then (Inr result) st))))
     \<and> \<not> isNew (session (skillContext (snd (callSkill_M_then (Inr result) st)))))
   \<and> (activeSession (skillContext st) \<and> \<not> nullish result \<longrightarrow>
       callSkill_A_then (Inr result) st
         = (Inr result,
            st\<lparr>skillContext :=
                 (if truthy result \<and> truthy (propOf result ''response'')
                       \<and> truthy (propOf (propOf result ''response'') ''shouldEndSession'')
                  then endSession ((skillContext st)\<lparr>session := used (session (skillContext st))\<rparr>)
                  else (skillContext st)\<lparr>session :=
                         updateAttributes (used (session (skillContext st)))
                           (propOf result ''sessionAttributes'')\<rparr>)\<rparr>)
     \<and> callSkill_M_then (Inr result) st
         = (Inr JUndefined,
            st\<lparr>skillContext :=
                 (if truthy result \<and> truthy (propOf result ''shouldEndSession'')
                  then endSession ((skillContext st)\<lparr>session := used (session (skillContext st))\<rparr>)
                  else (skillContext st)\<lparr>session :=
                         updateAttributes (used (session (skillContext st)))
                           (propOf result ''sessionAttributes'')\<rparr>)\<rparr>)
     \<and> activeSession (skillContext (snd (callSkill_A_then (Inr result) st)))
         = (\<not> (truthy result \<and> truthy (propOf result ''response'')
                 \<and> truthy (propOf (propOf result ''response'') ''shouldEndSession'')))
     \<and> activeSession (skillContext (snd (callSkill_M_then (Inr result) st)))
         = (\<not> (truthy result \<and> truthy (propOf result ''shouldEndSession''))))
   \<and> (\<not> activeSession (skillContext st) \<longrightarrow>
       callSkill_A_then (Inr result) st = (Inr result, st)
     \<and> callSkill_M_then (Inr result) st = (Inr JUndefined, st))"
proof -
  have u: "activeSession (skillContext st) \<longrightarrow>
       \<not> isNew (session (skillContext (snd (callSkill_A_then (Inr result) st))))
     \<and> \<not> isNew (session (skillContext (snd (callSkill_M_then (Inr result) st))))"
    using callSkill_A_then_used [of st result] callSkill_M_then_used [of st result] by blast
  have i: "\<not> activeSession (skillContext st) \<longrightarrow>
       callSkill_A_then (Inr result) st = (Inr result, st)
     \<and> callSkill_M_then (Inr result) st = (Inr JUndefined, st)"
    using callSkill_A_then_inactive [of st result] callSkill_M_then_inactive [of st result] by blast
  have a: "activeSession (skillContext st) \<and> \<not> nullish result \<longrightarrow>
       callSkill_A_then (Inr result) st
         = (Inr result,
            st\<lparr>skillContext :=
                 (if truthy result \<and> truthy (propOf result ''response'')
                       \<and> truthy (propOf (propOf result ''response'') ''shouldEndSession'')
                  then endSession ((skillContext st)\<lparr>session := used (session (skillContext st))\<rparr>)
                  else (skillContext st)\<lparr>session :=
                         updateAttributes (used (session (skillContext st)))
                           (propOf result ''sessionAttributes'')\<rparr>)\<rparr>)"
    using callSkill_A_then_active [of result st] unfolding shouldEnd_A_def by blast
  have m: "activeSession (skillContext st) \<and> \<not> nullish result \<longrightarrow>
       callSkill_M_then (Inr result) st
         = (Inr JUndefined,
            st\<lparr>skillContext :=
                 (if truthy result \<and> truthy (propOf result ''shouldEndSession'')
                  then endSession ((skillContext st)\<lparr>session := used (session (skillContext st))\<rparr>)
                  else (skillContext st)\<lparr>session :=
                         updateAttributes (used (session (skillContext st)))
                           (propOf result ''sessionAttributes'')\<rparr>)\<rparr>)"
    using callSkill_M_then_active [of result st] unfolding shouldEnd_M_def by blast
  have ea: "activeSession (skillContext st) \<and> \<not> nullish result \<longrightarrow>
       activeSession (skillContext (snd (callSkill_A_then (Inr result) st)))
         = (\<not> (truthy result \<and> truthy (propOf result ''response'')
                 \<and> truthy (propOf (propOf result ''response'') ''shouldEndSession'')))"
    using activeSession_after_A [of result st] unfolding shouldEnd_A_def by blast
  have em: "activeSession (skillContext st) \<and> \<not> nullish result \<longrightarrow>
       activeSession (skillContext (snd (callSkill_M_then (Inr result) st)))
         = (\<not> (truthy result \<and> truthy (propOf result ''shouldEndSession'')))"
    using activeSession_after_M [of result st] unfolding shouldEnd_M_def by blast
  show ?thesis using u i a m ea em by blast
qed

text \<open>
  Claim C6, instances: a payload whose response asks for the session to end, with and
  without an active session, and a payload that returns attributes.
\<close>

theorem C6_update_after_round_trip_witness:
  "activeSession (skillContext (helloState IDLE False True))
   \<and> \<not> nullish (JObj [(''response'', JObj [(''shouldEndSession'', JBool True)])])
   \<and> \<not> isNew (session (skillContext (snd (callSkill_A_then
          (Inr (JObj [(''response'', JObj [(''shouldEndSession'', JBool True)])])) (helloState IDLE False True)))))
   \<and> \<not> activeSession (skillContext (snd (callSkill_A_then
          (Inr (JObj [(''response'', JObj [(''shouldEndSession'', JBool True)])])) (helloState IDLE False True))))
   \<and> activeSession (skillContext (snd (callSkill_M_then
          (Inr (JObj [(''response'', JObj [(''shouldEndSession'', JBool True)])])) (helloState IDLE False True))))
   \<and> \<not> activeSession (skillContext (helloState IDLE False False))
   \<and> callSkill_A_then (Inr (JObj [(''response'', JObj [(''shouldEndSession'', JBool True)])]))
        (helloState IDLE False False)
       = (Inr (JObj [(''response'', JObj [(''shouldEndSession'', JBool True)])]), helloState IDLE False False)
   \<and> attributes (session (skillContext (snd (callSkill_A_then
          (Inr (JObj [(''sessionAttributes'', JObj [(''count'', JNum 2)])])) (helloState IDLE False True)))))
       = JObj [(''count'', JNum 2)]"
proof -
  let ?r = "JObj [(''response'', JObj [(''shouldEndSession'', JBool True)])]"
  have a: "activeSession (skillContext (helloState IDLE False True))"
    by (simp add: helloState_def activeSession_def)
  have i: "\<not> activeSession (skillContext (helloState IDLE False False))"
    by (simp add: helloState_def activeSession_def)
  have n: "\<not> nullish ?r" by simp
  have t: "truthy ?r \<and> truthy (propOf ?r ''response'')
             \<and> truthy (propOf (propOf ?r ''response'') ''shouldEndSession'')"
    by simp
  have f: "\<not> (truthy ?r \<and> truthy (propOf ?r ''shouldEndSession''))"
    by simp
  note w = C6_update_after_round_trip [of "helloState IDLE False True" ?r]
  note v = C6_update_after_round_trip [of "helloState IDLE False False" ?r]
  have 1: "\<not> isNew (session (skillContext (snd (callSkill_A_then (Inr ?r) (helloState IDLE False True)))))"
    using w a by blast
  have 2: "\<not> activeSession (skillContext (snd (callSkill_A_then (Inr ?r) (helloState IDLE False True))))"
    using w a n t by blast
  have 3: "activeSession (skillContext (snd (callSkill_M_then (Inr ?r) (helloState IDLE False True))))"
    using w a n f by blast
  have 4: "callSkill_A_then (Inr ?r) (helloState IDLE False False) = (Inr ?r, helloState IDLE False False)"
    using v i by blast
  have 5: "attributes (session (skillContext (snd (callSkill_A_then
          (Inr (JObj [(''sessionAttributes'', JObj [(''count'', JNum 2)])])) (helloState IDLE False True)))))
       = JObj [(''count'', JNum 2)]"
    by (simp add: run_defs)
  show ?thesis using a i n 1 2 3 4 5 by blast
qed

text \<open>
  Claim C6 as stated fails in the abstract interactor: a payload whose top-level flag is
  set leaves the session active, and a payload without a top-level flag, whose response
  object carries the flag, terminates it.
\<close>

theorem C6_top_level_flag_counterexample:
  "activeSession (skillContext (helloState IDLE False True))
   \<and> propOf (JObj [(''shouldEndSession'', JBool True)]) ''shouldEndSession'' = JBool True
   \<and> activeSession (skillContext (snd (callSkill_A_then (Inr (JObj [(''shouldEndSession'', JBool True)]))
         (helloState IDLE False True))))
   \<and> propOf (JObj [(''response'', JObj [(''shouldEndSession'', JBool True)])]) ''shouldEndSession'' = JUndefined
   \<and> \<not> activeSession (skillContext (snd (callSkill_A_then
         (Inr (JObj [(''response'', JObj [(''shouldEndSession'', JBool True)])])) (helloState IDLE False True))))"
  by (simp add: run_defs)

section \<open>The request filter\<close>

text \<open>
  What \<open>callSkill\<close> of the abstract interactor does with a filter. A filter that throws
  rejects the promise. The value a filter returns is ignored. When the filter returns,
  the envelope still has a request block, and the type of the request converts to a
  string, the collaborator receives the envelope exactly as the filter left it; and
  whatever the collaborator receives is that envelope (\<open>callSkill_A_envelope\<close>).
\<close>

lemma propOf_setProp_toJSON: "propOf (setProp (toJSON c r) k x) k = x"
  by (simp add: toJSON_def update_conv')

lemma callSkill_A_filter_throws:
  "fst (g (toJSON (ensureSession r (skillContext st)) r)) = Inl e \<Longrightarrow>
   callSkill_A r (Some g) st = (Rejected e, st\<lparr>skillContext := ensureSession r (skillContext st)\<rparr>)"
  by (simp add: callSkill_A_def ensureSession_def Let_def)

lemma callSkill_A_filter_ignores_result:
  "fst (g (toJSON (ensureSession r (skillContext st)) r)) = Inr v \<Longrightarrow>
   callSkill_A r (Some g) st = callSkill_A r (Some (\<lambda>x. (Inr w, snd (g x)))) st"
  by (simp add: callSkill_A_def ensureSession_def Let_def)

lemma callSkill_A_filtered:
  "fst (g (toJSON (ensureSession r (skillContext st)) r)) = Inr v \<Longrightarrow>
   \<not> nullish (snd (g (toJSON (ensureSession r (skillContext st)) r))) \<Longrightarrow>
   \<not> nullish (propOf (snd (g (toJSON (ensureSession r (skillContext st)) r))) ''request'') \<Longrightarrow>
   jsToString (propOf (propOf (snd (g (toJSON (ensureSession r (skillContext st)) r))) ''request'') ''type'')
     = Inr ts \<Longrightarrow>
   callSkill_A r (Some g) st
     = (Pending (snd (g (toJSON (ensureSession r (skillContext st)) r))),
        say (ConsoleLog (''CALLING: '' @ ts)) (st\<lparr>skillContext := ensureSession r (skillContext st)\<rparr>))"
  by (simp add: callSkill_A_def ensureSession_def Let_def getProp_not_nullish)

lemma callSkill_A_stamped:
  "fst (callSkill_A launchRequest (Some stampFilter) (helloState IDLE False True))
     = Pending (setProp (toJSON (skillContext (helloState IDLE False True)) launchRequest) ''stamp'' (JNum 7))"
  by (simp add: run_defs stampFilter_def)

lemma callSkill_A_throwingFilter:
  "fst (callSkill_A launchRequest (Some throwingFilter) (helloState IDLE False True))
     = Rejected (Raised (JStr ''filter failed''))"
  by (simp add: run_defs throwingFilter_def)

text \<open>
  Claim C7. The claim holds of the specification and fails on the code: between the call
  of the filter and the call of the collaborator, \<open>callSkill\<close> evaluates
  \<open>"CALLING: " + requestJSON.request.type\<close> for the log. A filter that sets the
  request block to null makes the property read throw, and a filter that sets the type to
  an object that cannot be converted to a string makes the concatenation throw. In both
  cases the promise is rejected and the collaborator is never invoked, so the fields the
  filter set reach nothing.
\<close>

theorem C7_filter_stops_dispatch:
  "propOf (snd (dropRequestFilter (toJSON (skillContext (helloState IDLE False True)) launchRequest))) ''request''
     = JNull
   \<and> callSkill_A launchRequest (Some dropRequestFilter) (helloState IDLE False True)
     = (Rejected (TypeError ''Cannot read property type''), helloState IDLE False True)
   \<and> launched_A (Some dropRequestFilter) (helloState IDLE False True)
     = (Rejected (TypeError ''Cannot read property type''), helloState IDLE False True)
   \<and> propOf (propOf (snd (hideTypeFilter (toJSON (skillContext (helloState IDLE False True)) launchRequest)))
        ''request'') ''type''
     = JObj [(''toString'', JNull)]
   \<and> launched_A (Some hideTypeFilter) (helloState IDLE False True)
     = (Rejected (TypeError ''Cannot convert object to primitive value''), helloState IDLE False True)"
  by (simp add: run_defs dropRequestFilter_def hideTypeFilter_def)

section \<open>Logging the error payload of sessionEnded\<close>

lemma callSkill_A_console_frame:
  "fst (callSkill_A r f (st\<lparr>console := k\<rparr>)) = fst (callSkill_A r f st)
   \<and> skillContext (snd (callSkill_A r f (st\<lparr>console := k\<rparr>))) = skillContext (snd (callSkill_A r f st))
   \<and> console (snd (callSkill_A r f (st\<lparr>console := k\<rparr>)))
       = k @ drop (length (console st)) (console (snd (callSkill_A r f st)))"
  by (simp add: callSkill_A_def Let_def say_def split: sum.splits option.splits)

lemma callSkill_M_console_frame:
  "fst (callSkill_M r (st\<lparr>console := k\<rparr>)) = fst (callSkill_M r st)
   \<and> skillContext (snd (callSkill_M r (st\<lparr>console := k\<rparr>))) = skillContext (snd (callSkill_M r st))
   \<and> console (snd (callSkill_M r (st\<lparr>console := k\<rparr>)))
       = k @ drop (length (console st)) (console (snd (callSkill_M r st)))"
  by (simp add: callSkill_M_eq say_def)

text \<open>
  When the error data is accepted by \<open>JSON.stringify\<close>, the error entry on the console
  is the only trace of the logging: the promise and the skill context are those of
  \<open>callSkill\<close> on the request in the state before the logging.
\<close>

lemma sessionEnded_A_logging_frame:
  "serialisable e \<Longrightarrow>
     fst (sessionEnded_A ERROR e f st) = fst (callSkill_A (sessionEndedRequest ERROR e) f st)
   \<and> skillContext (snd (sessionEnded_A ERROR e f st))
       = skillContext (snd (callSkill_A (sessionEndedRequest ERROR e) f st))
   \<and> console (snd (sessionEnded_A ERROR e f st))
       = console st @ ConsoleError (''SessionEndedRequest:'' @ [CHR 0x0A]) e
         # drop (length (console st)) (console (snd (callSkill_A (sessionEndedRequest ERROR e) f st)))"
  by (simp add: sessionEnded_A_eq say_def callSkill_A_console_frame)

lemma sessionEnded_M_logging_frame:
  "serialisable e \<Longrightarrow>
     fst (sessionEnded_M ERROR e st) = fst (callSkill_M (sessionEndedRequest ERROR e) st)
   \<and> skillContext (snd (sessionEnded_M ERROR e st))
       = endSession (skillContext (snd (callSkill_M (sessionEndedRequest ERROR e) st)))
   \<and> console (snd (sessionEnded_M ERROR e st))
       = console st @ ConsoleError (''SessionEndedRequest:'' @ [CHR 0x0A]) e
         # drop (length (console st)) (console (snd (callSkill_M (sessionEndedRequest ERROR e) st)))"
  by (simp add: sessionEnded_M_eq say_def callSkill_M_console_frame)

text \<open>
  Claim C8. The claim holds of the specification and fails on the code: for the reason
  ERROR both sources evaluate \<open>JSON.stringify(errorData, null, 2)\<close> for the log before
  anything is built. On error data that \<open>JSON.stringify\<close> rejects the call throws:
  no request is built, nothing is dispatched, and in SkillInteractor.ts the session is
  not ended; with any other reason and the same data the request is dispatched.
\<close>

theorem C8_error_logging_stops_dispatch:
  "\<not> serialisable (JObj [(''code'', JBigInt 10)])
   \<and> sessionEnded_A ERROR (JObj [(''code'', JBigInt 10)]) None (helloState IDLE False True)
       = (Thrown (TypeError ''Do not know how to serialize a BigInt''), helloState IDLE False True)
   \<and> fst (sessionEnded_A USER_INITIATED (JObj [(''code'', JBigInt 10)]) None (helloState IDLE False True))
       = Pending (toJSON (skillContext (helloState IDLE False True))
                    (SessionEndedRequest USER_INITIATED (JObj [(''code'', JBigInt 10)])))
   \<and> sessionEnded_M ERROR (JObj [(''code'', JBigInt 10)]) (helloState IDLE False True)
       = (Thrown (TypeError ''Do not know how to serialize a BigInt''), helloState IDLE False True)
   \<and> fst (sessionEnded_M USER_INITIATED (JObj [(''code'', JBigInt 10)]) (helloState IDLE False True))
       = Pending (toJSON (skillContext (helloState IDLE False True))
                    (SessionEndedRequest USER_INITIATED (JObj [(''code'', JBigInt 10)])))
   \<and> activeSession (skillContext (snd (sessionEnded_M ERROR (JObj [(''code'', JBigInt 10)])
         (helloState IDLE False True))))
   \<and> \<not> activeSession (skillContext (snd (sessionEnded_M USER_INITIATED (JObj [(''code'', JBigInt 10)])
         (helloState IDLE False True))))"
  by (simp add: run_defs)

end
